theory Spec2Isabelle
  imports Main
begin

section \<open>JavaScript values, errors and string helpers\<close>

text \<open>
  The values the dialect inspects for being \<open>undefined\<close> or falsy. Numbers are
  restricted to the integers (the only numbers whose decimal rendering the model spells out).
\<close>

datatype jsval = JUndefined | JNull | JBool bool | JNum int | JStr string

text \<open>JavaScript truthiness of a primitive value (\<open>!v\<close> is its negation).\<close>

fun truthy :: "jsval \<Rightarrow> bool" where
  "truthy JUndefined = False"
| "truthy JNull = False"
| "truthy (JBool b) = b"
| "truthy (JNum n) = (n \<noteq> 0)"
| "truthy (JStr s) = (s \<noteq> [])"

datatype js_error = Error string | TypeError string | TransactionRollbackError

text \<open>\<open>Array.prototype.join\<close> on an array of strings.\<close>

fun join :: "string \<Rightarrow> string list \<Rightarrow> string" where
  "join sep [] = []"
| "join sep [x] = x"
| "join sep (x # y # ys) = x @ sep @ join sep (y # ys)"

text \<open>Decimal rendering of an integer, as a template literal renders it.\<close>

fun digits :: "nat \<Rightarrow> string" where
  "digits n = (if n < 10 then [char_of (48 + n)]
               else digits (n div 10) @ [char_of (48 + n mod 10)])"

declare digits.simps [simp del]

definition show_int :: "int \<Rightarrow> string" where
  "show_int i = (if i < 0 then CHR ''-'' # digits (nat (- i)) else digits (nat i))"

section \<open>Column types (columns/varchar.ts, number.ts, timestamp.ts, ...)\<close>

record SnowflakeVarcharConfig =
  vc_length :: "int option"

record SnowflakeNumberConfig =
  nc_precision :: "int option"
  nc_scale :: "int option"

datatype timestamp_mode = ModeDate | ModeString

record SnowflakeTimestampConfig =
  tc_withTimezone :: "bool option"
  tc_precision :: "int option"
  tc_mode :: "timestamp_mode option"

text \<open>
  One constructor per runtime column class, holding the fields that class reads in
  \<open>getSQLType\<close>.
\<close>

datatype column_type =
    SnowflakeVarchar "int option"
  | SnowflakeNumber "int option" "int option"
  | SnowflakeTimestamp bool "int option"
  | SnowflakeTimestampString bool "int option"
  | SnowflakeText
  | SnowflakeInteger
  | SnowflakeBoolean
  | SnowflakeDate
  | SnowflakeDateString

text \<open>The builder functions: \<open>varchar(name, config)\<close>, \<open>number(name, config)\<close>,
  \<open>timestamp(name, config)\<close>, with an absent config being \<open>{}\<close>.\<close>

definition empty_varchar_config :: SnowflakeVarcharConfig where
  "empty_varchar_config = \<lparr>vc_length = None\<rparr>"

definition empty_number_config :: SnowflakeNumberConfig where
  "empty_number_config = \<lparr>nc_precision = None, nc_scale = None\<rparr>"

definition empty_timestamp_config :: SnowflakeTimestampConfig where
  "empty_timestamp_config = \<lparr>tc_withTimezone = None, tc_precision = None, tc_mode = None\<rparr>"

definition varchar :: "SnowflakeVarcharConfig \<Rightarrow> column_type" where
  "varchar config = SnowflakeVarchar (vc_length config)"

definition number :: "SnowflakeNumberConfig \<Rightarrow> column_type" where
  "number config = SnowflakeNumber (nc_precision config) (nc_scale config)"

definition timestamp :: "SnowflakeTimestampConfig \<Rightarrow> column_type" where
  "timestamp config =
     (let wtz = (case tc_withTimezone config of None \<Rightarrow> False | Some b \<Rightarrow> b) in
      if tc_mode config = Some ModeString
      then SnowflakeTimestampString wtz (tc_precision config)
      else SnowflakeTimestamp wtz (tc_precision config))"

fun getSQLType :: "column_type \<Rightarrow> string" where
  "getSQLType (SnowflakeVarchar len) =
     (case len of None \<Rightarrow> ''varchar''
      | Some n \<Rightarrow> ''varchar('' @ show_int n @ '')'')"
| "getSQLType (SnowflakeNumber precision scale) =
     (if precision \<noteq> None \<and> scale \<noteq> None
      then ''number('' @ show_int (the precision) @ '', '' @ show_int (the scale) @ '')''
      else if precision \<noteq> None
      then ''number('' @ show_int (the precision) @ '')''
      else ''number'')"
| "getSQLType (SnowflakeTimestamp withTimezone precision) =
     (let p = (case precision of None \<Rightarrow> '''' | Some n \<Rightarrow> ''('' @ show_int n @ '')'') in
      if withTimezone then ''timestamp_tz'' @ p else ''timestamp_ntz'' @ p)"
| "getSQLType (SnowflakeTimestampString withTimezone precision) =
     (let p = (case precision of None \<Rightarrow> '''' | Some n \<Rightarrow> ''('' @ show_int n @ '')'') in
      if withTimezone then ''timestamp_tz'' @ p else ''timestamp_ntz'' @ p)"
| "getSQLType SnowflakeText = ''text''"
| "getSQLType SnowflakeInteger = ''integer''"
| "getSQLType SnowflakeBoolean = ''boolean''"
| "getSQLType SnowflakeDate = ''date''"
| "getSQLType SnowflakeDateString = ''date''"

section \<open>Identifier and literal escaping (dialect.ts)\<close>

definition escapeName :: "string \<Rightarrow> string" where
  "escapeName name = [CHR 0x22] @ name @ [CHR 0x22]"

definition escapeParam :: "nat \<Rightarrow> string" where
  "escapeParam num = ''?''"

definition escapeString :: "string \<Rightarrow> string" where
  "escapeString str =
     [CHR 0x27] @ concat (map (\<lambda>c. if c = CHR 0x27 then [CHR 0x27, CHR 0x27] else [c]) str)
       @ [CHR 0x27]"

text \<open>
  The quoting rule of SQL-92 for a delimited identifier, following the words of the
  specification (wrap in double quotes, double every embedded double quote). It is the
  reference \<open>escapeName\<close> is compared with, not a translation of the source.
\<close>

definition sql92_quote_identifier :: "string \<Rightarrow> string" where
  "sql92_quote_identifier name =
     [CHR 0x22] @ concat (map (\<lambda>c. if c = CHR 0x22 then [CHR 0x22, CHR 0x22] else [c]) name)
       @ [CHR 0x22]"

section \<open>Tables, columns and SQL fragments\<close>

text \<open>
  The naming data of a table (\<open>Table.Symbol.Name\<close>, \<open>OriginalName\<close>, \<open>Schema\<close>,
  \<open>BaseName\<close>, \<open>IsAlias\<close>). A column refers back to this record; the column map of a
  table is kept beside it in the query descriptors, which breaks the cycle of the
  object graph.
\<close>

record SnowflakeTable =
  tbl_Name :: string
  tbl_OriginalName :: string
  tbl_Schema :: "string option"
  tbl_BaseName :: string
  tbl_IsAlias :: bool

text \<open>
  Modelled from the spec: the fragment type (\<open>sql/sql.ts\<close>) and the base column class
  (\<open>column.ts\<close>) are external collaborators. The chunks of an SQL fragment are the kinds
  the specification lists (raw text, identifier, parameter placeholder, nested fragment)
  and the objects the dialect embeds in templates (column, table, subquery, aliased
  fragment, array of chunks, named placeholder, \<open>undefined\<close>); a plain value embedded
  in a template is a bound parameter. A column carries the fields the dialect reads;
  \<open>col_disableInsert\<close> is the result of \<open>shouldDisableInsert()\<close>, and the generator
  functions are given by the value they return (a fragment or a plain value).
\<close>

datatype sqlchunk =
    StringChunk string
  | Name string
  | ColumnChunk column
  | TableChunk SnowflakeTable
  | Param jsval "column option"
  | SQL "sqlchunk list"
  | ArrayChunk "sqlchunk list"
  | SubqueryChunk string "sqlchunk list"
  | AliasedChunk "sqlchunk list" string bool
  | Placeholder string
  | UndefinedChunk
and column =
    Column (col_name: string) (col_table: SnowflakeTable) (col_type: column_type)
      (col_uniqueName: "string option") (col_default: sql_or_value)
      (col_defaultFn: "sql_or_value option") (col_onUpdateFn: "sql_or_value option")
      (col_disableInsert: bool)
and sql_or_value = IsSQL "sqlchunk list" | IsValue jsval

section \<open>Constraint names (unique-constraint.ts, primary-keys.ts, foreign-keys.ts, columns/common.ts)\<close>

definition uniqueKeyName :: "SnowflakeTable \<Rightarrow> string list \<Rightarrow> string" where
  "uniqueKeyName table columns = tbl_Name table @ ''_'' @ join ''_'' columns @ ''_unique''"

definition primaryKeyName :: "SnowflakeTable \<Rightarrow> string list \<Rightarrow> string" where
  "primaryKeyName table columns = tbl_Name table @ ''_'' @ join ''_'' columns @ ''_pk''"

record UniqueConstraint =
  uc_table :: SnowflakeTable
  uc_columns :: "column list"
  uc_name :: string
  uc_nullsNotDistinct :: bool

definition UniqueConstraint_new ::
  "SnowflakeTable \<Rightarrow> column list \<Rightarrow> bool \<Rightarrow> string option \<Rightarrow> UniqueConstraint" where
  "UniqueConstraint_new table columns nullsNotDistinct name =
     \<lparr>uc_table = table, uc_columns = columns,
      uc_name = (case name of Some n \<Rightarrow> n
                 | None \<Rightarrow> uniqueKeyName table (map col_name columns)),
      uc_nullsNotDistinct = nullsNotDistinct\<rparr>"

record PrimaryKey =
  pk_table :: SnowflakeTable
  pk_columns :: "column list"
  pk_name :: string

definition PrimaryKey_new :: "SnowflakeTable \<Rightarrow> column list \<Rightarrow> string option \<Rightarrow> PrimaryKey" where
  "PrimaryKey_new table columns name =
     \<lparr>pk_table = table, pk_columns = columns,
      pk_name = (case name of Some n \<Rightarrow> n
                 | None \<Rightarrow> primaryKeyName table (map col_name columns))\<rparr>"

text \<open>The runtime configuration a column builder hands to the column constructor.\<close>

record ColumnBuilderRuntimeConfig =
  cfg_name :: string
  cfg_uniqueName :: "string option"
  cfg_default :: sql_or_value
  cfg_defaultFn :: "sql_or_value option"
  cfg_onUpdateFn :: "sql_or_value option"
  cfg_disableInsert :: bool

text \<open>
  The constructor of \<open>SnowflakeColumn\<close>: \<open>if (!config.uniqueName)\<close> holds for an absent
  name and for the empty string, and the assignment \<open>config.uniqueName = ...\<close> writes
  into the object it was given; the base constructor then copies the configuration. The
  result is the column together with the configuration object as the constructor leaves
  it.
\<close>

definition SnowflakeColumn_new ::
  "SnowflakeTable \<Rightarrow> ColumnBuilderRuntimeConfig \<Rightarrow> column_type
     \<Rightarrow> column \<times> ColumnBuilderRuntimeConfig" where
  "SnowflakeColumn_new table config ty =
     (let config' =
        (if cfg_uniqueName config = None \<or> cfg_uniqueName config = Some []
         then config\<lparr>cfg_uniqueName := Some (uniqueKeyName table [cfg_name config])\<rparr>
         else config)
      in (Column (cfg_name config') table ty (cfg_uniqueName config') (cfg_default config')
            (cfg_defaultFn config') (cfg_onUpdateFn config') (cfg_disableInsert config'),
          config'))"

text \<open>
  A column builder: its configuration object and the column class it builds.
  \<open>build(table)\<close> hands \<open>this.config\<close> itself to the constructor, so the builder
  afterwards holds the configuration the constructor has written into.
\<close>

record SnowflakeColumnBuilder =
  cb_config :: ColumnBuilderRuntimeConfig
  cb_type :: column_type

definition SnowflakeColumnBuilder_build ::
  "SnowflakeColumnBuilder \<Rightarrow> SnowflakeTable \<Rightarrow> column \<times> SnowflakeColumnBuilder" where
  "SnowflakeColumnBuilder_build this table =
     (case SnowflakeColumn_new table (cb_config this) (cb_type this) of
        (column, config') \<Rightarrow> (column, this\<lparr>cb_config := config'\<rparr>))"

datatype UpdateDeleteAction = Cascade | Restrict | NoAction | SetNull | SetDefault

record fk_actions =
  act_onUpdate :: "UpdateDeleteAction option"
  act_onDelete :: "UpdateDeleteAction option"

text \<open>The value the \<open>config\<close> thunk of a foreign-key builder returns.\<close>

record fk_config =
  fkc_columns :: "column list"
  fkc_foreignColumns :: "column list"

record ForeignKeyBuilder =
  fkb_config :: fk_config
  fkb_onUpdate :: "UpdateDeleteAction option"
  fkb_onDelete :: "UpdateDeleteAction option"

text \<open>
  The constructor: both actions start as \<open>'no action'\<close> (the field initialisers) and are
  overwritten from the \<open>actions\<close> object when one is passed.
\<close>

definition ForeignKeyBuilder_new :: "fk_config \<Rightarrow> fk_actions option \<Rightarrow> ForeignKeyBuilder" where
  "ForeignKeyBuilder_new config actions =
     (let this = \<lparr>fkb_config = config, fkb_onUpdate = Some NoAction,
                  fkb_onDelete = Some NoAction\<rparr>
      in case actions of
           None \<Rightarrow> this
         | Some a \<Rightarrow> this\<lparr>fkb_onUpdate := act_onUpdate a, fkb_onDelete := act_onDelete a\<rparr>)"

definition ForeignKeyBuilder_onUpdate :: "UpdateDeleteAction \<Rightarrow> ForeignKeyBuilder \<Rightarrow> ForeignKeyBuilder" where
  "ForeignKeyBuilder_onUpdate action this = this\<lparr>fkb_onUpdate := Some action\<rparr>"

definition ForeignKeyBuilder_onDelete :: "UpdateDeleteAction \<Rightarrow> ForeignKeyBuilder \<Rightarrow> ForeignKeyBuilder" where
  "ForeignKeyBuilder_onDelete action this = this\<lparr>fkb_onDelete := Some action\<rparr>"

record ForeignKey =
  fk_table :: SnowflakeTable
  fk_reference :: fk_config
  fk_onUpdate :: "UpdateDeleteAction option"
  fk_onDelete :: "UpdateDeleteAction option"

definition ForeignKeyBuilder_build :: "ForeignKeyBuilder \<Rightarrow> SnowflakeTable \<Rightarrow> ForeignKey" where
  "ForeignKeyBuilder_build this table =
     \<lparr>fk_table = table, fk_reference = fkb_config this,
      fk_onUpdate = fkb_onUpdate this, fk_onDelete = fkb_onDelete this\<rparr>"

text \<open>
  \<open>ForeignKey.getName\<close>. Calling \<open>reference()\<close> reads \<open>foreignColumns[0]!.table\<close>, which
  throws a TypeError on an empty list of foreign columns.
\<close>

definition ForeignKey_getName :: "ForeignKey \<Rightarrow> js_error + string" where
  "ForeignKey_getName this =
     (case fkc_foreignColumns (fk_reference this) of
        [] \<Rightarrow> Inl (TypeError ''Cannot read properties of undefined'')
      | fc # _ \<Rightarrow>
          (let columnNames = map col_name (fkc_columns (fk_reference this));
               foreignColumnNames = map col_name (fkc_foreignColumns (fk_reference this));
               chunks = [tbl_Name (fk_table this)] @ columnNames
                          @ [tbl_Name (col_table fc)] @ foreignColumnNames
           in Inr (join ''_'' chunks @ ''_fk'')))"

section \<open>Session and transactions (snowflake/session.ts)\<close>

text \<open>
  The vendor connection. The module only calls \<open>connection.execute\<close> and waits for
  \<open>complete(err)\<close>; what the connection answers is the connection's business. A driver
  is therefore a function from the statements executed so far and the next statement to
  the error it reports (\<open>None\<close> for \<open>undefined\<close>), and the state of the connection is
  the list of statements it has been given, oldest first.
\<close>

type_synonym driver = "string list \<Rightarrow> string \<Rightarrow> js_error option"

text \<open>
  \<open>await new Promise((resolve, reject) => connection.execute({sqlText, complete}))\<close>:
  the statement reaches the connection whether or not it succeeds.
\<close>

definition connection_execute ::
  "driver \<Rightarrow> string \<Rightarrow> string list \<Rightarrow> (js_error + unit) \<times> string list" where
  "connection_execute drv sqlText log =
     ((case drv log sqlText of Some err \<Rightarrow> Inl err | None \<Rightarrow> Inr ()), log @ [sqlText])"

text \<open>Connection, dialect, schema and options are references; the model keeps their identity.\<close>

record SnowflakeSdkSession =
  ses_connection :: nat
  ses_dialect :: nat
  ses_schema :: "nat option"
  ses_options :: nat

record SnowflakeSdkTransaction =
  tx_connection :: nat
  tx_dialect :: nat
  tx_session :: SnowflakeSdkSession
  tx_schema :: "nat option"
  tx_options :: nat
  tx_nestedIndex :: nat

definition SnowflakeSdkTransaction_new ::
  "nat \<Rightarrow> nat \<Rightarrow> SnowflakeSdkSession \<Rightarrow> nat option \<Rightarrow> nat \<Rightarrow> nat \<Rightarrow> SnowflakeSdkTransaction" where
  "SnowflakeSdkTransaction_new connection dialect session schema options nestedIndex =
     \<lparr>tx_connection = connection, tx_dialect = dialect, tx_session = session,
      tx_schema = schema, tx_options = options, tx_nestedIndex = nestedIndex\<rparr>"

text \<open>
  A transaction callback: given the handle, it acts on the connection and resolves with
  a result (\<open>Inr\<close>) or raises (\<open>Inl\<close>).
\<close>

type_synonym 'a tx_callback =
  "SnowflakeSdkTransaction \<Rightarrow> string list \<Rightarrow> (js_error + 'a) \<times> string list"

text \<open>The \<open>catch\<close> block of \<open>SnowflakeSdkSession.transaction\<close>.\<close>

definition rollback_and_rethrow ::
  "driver \<Rightarrow> js_error \<Rightarrow> string list \<Rightarrow> (js_error + 'a) \<times> string list" where
  "rollback_and_rethrow drv error log =
     (case connection_execute drv ''ROLLBACK'' log of
        (Inl err, log') \<Rightarrow> (Inl err, log')
      | (Inr _, log') \<Rightarrow> (Inl error, log'))"

text \<open>
  \<open>SnowflakeSdkSession.transaction\<close>. A failing \<open>BEGIN TRANSACTION\<close> rejects before the
  \<open>try\<close>; the callback and the \<open>COMMIT\<close> are both inside it.
\<close>

definition SnowflakeSdkSession_transaction ::
  "driver \<Rightarrow> SnowflakeSdkSession \<Rightarrow> 'a tx_callback \<Rightarrow> string list
     \<Rightarrow> (js_error + 'a) \<times> string list" where
  "SnowflakeSdkSession_transaction drv this transaction log =
     (let tx = SnowflakeSdkTransaction_new (ses_connection this) (ses_dialect this) this
                 (ses_schema this) (ses_options this) 0
      in case connection_execute drv ''BEGIN TRANSACTION'' log of
           (Inl err, log1) \<Rightarrow> (Inl err, log1)
         | (Inr _, log1) \<Rightarrow>
             (case transaction tx log1 of
                (Inl error, log2) \<Rightarrow> rollback_and_rethrow drv error log2
              | (Inr result, log2) \<Rightarrow>
                  (case connection_execute drv ''COMMIT'' log2 of
                     (Inl error, log3) \<Rightarrow> rollback_and_rethrow drv error log3
                   | (Inr _, log3) \<Rightarrow> (Inr result, log3))))"

text \<open>\<open>SnowflakeSdkTransaction.transaction\<close>: the nested request.\<close>

definition SnowflakeSdkTransaction_transaction ::
  "SnowflakeSdkTransaction \<Rightarrow> 'a tx_callback \<Rightarrow> string list
     \<Rightarrow> (js_error + 'a) \<times> string list" where
  "SnowflakeSdkTransaction_transaction this transaction log =
     (let tx = SnowflakeSdkTransaction_new (tx_connection this) (tx_dialect this)
                 (tx_session this) (tx_schema this) (tx_options this)
                 (tx_nestedIndex this + 1)
      in transaction tx log)"

text \<open>\<open>SnowflakeTransaction.rollback\<close>: raises the rollback signal, executes nothing.\<close>

definition SnowflakeTransaction_rollback :: "string list \<Rightarrow> (js_error + 'a) \<times> string list" where
  "SnowflakeTransaction_rollback log = (Inl TransactionRollbackError, log)"

text \<open>
  A callback that does nothing but open \<open>n\<close> nested transactions, one inside the other,
  around \<open>inner\<close>: \<open>tx => tx.transaction(tx1 => tx1.transaction(... inner ...))\<close>.
\<close>

fun nested_transactions :: "nat \<Rightarrow> 'a tx_callback \<Rightarrow> 'a tx_callback" where
  "nested_transactions 0 inner = inner"
| "nested_transactions (Suc n) inner =
     (\<lambda>tx. SnowflakeSdkTransaction_transaction tx (nested_transactions n inner))"

text \<open>
  Callback bodies, to speak about every way of nesting: a body executes a statement on
  the connection, makes a nested transaction request around a body, runs one body after
  another, raises, catches what a body raises, or resolves. \<open>run_body\<close> is the callback
  such a body is; its nested requests go through \<open>SnowflakeSdkTransaction.transaction\<close>.
\<close>

datatype tx_body =
    Execute string
  | Nested tx_body
  | Sequence tx_body tx_body
  | Throw js_error
  | TryCatch tx_body tx_body
  | Resolve

primrec run_body :: "driver \<Rightarrow> tx_body \<Rightarrow> unit tx_callback" where
  "run_body drv (Execute sqlText) = (\<lambda>tx log. connection_execute drv sqlText log)"
| "run_body drv (Nested b) =
     (\<lambda>tx log. SnowflakeSdkTransaction_transaction tx (run_body drv b) log)"
| "run_body drv (Sequence a b) =
     (\<lambda>tx log. case run_body drv a tx log of
                  (Inl e, log') \<Rightarrow> (Inl e, log')
                | (Inr r, log') \<Rightarrow> run_body drv b tx log')"
| "run_body drv (Throw e) = (\<lambda>tx log. (Inl e, log))"
| "run_body drv (TryCatch a b) =
     (\<lambda>tx log. case run_body drv a tx log of
                  (Inl e, log') \<Rightarrow> run_body drv b tx log'
                | (Inr r, log') \<Rightarrow> (Inr r, log'))"
| "run_body drv Resolve = (\<lambda>tx log. (Inr (), log))"

text \<open>The statements a body executes itself, at any depth of nesting.\<close>

primrec statements :: "tx_body \<Rightarrow> string list" where
  "statements (Execute sqlText) = [sqlText]"
| "statements (Nested b) = statements b"
| "statements (Sequence a b) = statements a @ statements b"
| "statements (Throw e) = []"
| "statements (TryCatch a b) = statements a @ statements b"
| "statements Resolve = []"

text \<open>The statements a call has added to the connection.\<close>

definition issued :: "string list \<Rightarrow> string list \<Rightarrow> string list" where
  "issued before after = drop (length before) after"

text \<open>Example drivers, callbacks and a session, for the concrete instances below.\<close>

definition drv_ok :: driver where
  "drv_ok log sqlText = None"

definition drv_commit_fails :: driver where
  "drv_commit_fails log sqlText =
     (if sqlText = ''COMMIT'' then Some (Error ''commit failed'') else None)"

definition drv_rollback_fails :: driver where
  "drv_rollback_fails log sqlText =
     (if sqlText = ''ROLLBACK'' then Some (Error ''rollback failed'') else None)"

definition cb_insert :: "driver \<Rightarrow> nat tx_callback" where
  "cb_insert drv tx log =
     (case connection_execute drv ''INSERT INTO users (name) VALUES (?)'' log of
        (Inl err, log') \<Rightarrow> (Inl err, log')
      | (Inr _, log') \<Rightarrow> (Inr (tx_nestedIndex tx), log'))"

definition cb_throw :: "nat tx_callback" where
  "cb_throw tx log = (Inl (Error ''Test error''), log)"

text \<open>
  \<open>async tx => { await tx.transaction(async t => { await t.execute(insert) }); throw e }\<close>:
  the nested callback resolves and the enclosing one raises.
\<close>

definition body_nested_then_throw :: tx_body where
  "body_nested_then_throw =
     Sequence (Nested (Execute ''INSERT INTO users (name) VALUES (?)''))
       (Throw (Error ''Test error''))"

text \<open>
  \<open>async tx => { try { await tx.transaction(async t => { throw e }) }
  catch { await tx.execute(insert) } }\<close>: the nested callback raises and the enclosing
  one catches and resolves.
\<close>

definition body_catch_nested_throw :: tx_body where
  "body_catch_nested_throw =
     TryCatch (Nested (Throw (Error ''Test error'')))
       (Execute ''INSERT INTO users (name) VALUES (?)'')"

definition example_session :: SnowflakeSdkSession where
  "example_session = \<lparr>ses_connection = 1, ses_dialect = 2, ses_schema = None, ses_options = 3\<rparr>"


section \<open>The SQL compiler (snowflake-core/dialect.ts)\<close>

text \<open>
  Modelled from the spec: \<open>sql.join(chunks, separator)\<close> of the external fragment
  builder, which puts the separator between consecutive chunks.
\<close>

fun sql_join :: "sqlchunk \<Rightarrow> sqlchunk list \<Rightarrow> sqlchunk list" where
  "sql_join sep [] = []"
| "sql_join sep [x] = [x]"
| "sql_join sep (x # y # ys) = x # sep # sql_join sep (y # ys)"

text \<open>
  \<open>xs.flatMap((x, i) => ...)\<close> and the \<open>for (const [i, x] of xs.entries())\<close> loops that
  push onto an array: the body sees the element and its index.
\<close>

definition flatMap_indexed :: "('a \<Rightarrow> nat \<Rightarrow> 'b list) \<Rightarrow> 'a list \<Rightarrow> 'b list" where
  "flatMap_indexed f xs = concat (map (\<lambda>(i, x). f x i) (enumerate 0 xs))"

text \<open>A subquery: its alias and its fragment.\<close>

type_synonym subquery = "string \<times> sqlchunk list"

definition buildWithCTE :: "subquery list option \<Rightarrow> sqlchunk" where
  "buildWithCTE queries =
     (case queries of
        None \<Rightarrow> UndefinedChunk
      | Some [] \<Rightarrow> UndefinedChunk
      | Some qs \<Rightarrow>
          SQL ([SQL [StringChunk ''WITH '']]
               @ flatMap_indexed
                   (\<lambda>w i. [SQL [Name (fst w), StringChunk '' AS ('', SQL (snd w), StringChunk '')'']]
                          @ (if int i < int (length qs) - 1 then [SQL [StringChunk '', '']] else []))
                   qs
               @ [SQL [StringChunk '' '']]))"

text \<open>The kinds of a projected field, and a field with its path.\<close>

datatype selected_field_value =
    FieldAliased "sqlchunk list" string bool
  | FieldSQL "sqlchunk list"
  | FieldColumn column
  | FieldSubquery string "sqlchunk list"

record selected_field =
  sf_path :: "string list"
  sf_field :: selected_field_value

text \<open>
  The replacement \<open>buildSelection\<close> applies to the chunks of a fragment of a single-table
  query: a column becomes its bare identifier.
\<close>

definition unqualify_chunk :: "(column \<Rightarrow> string) \<Rightarrow> sqlchunk \<Rightarrow> sqlchunk" where
  "unqualify_chunk casing c = (case c of ColumnChunk col \<Rightarrow> Name (casing col) | _ \<Rightarrow> c)"

text \<open>
  The body of the \<open>flatMap\<close> callback of \<open>buildSelection\<close>, before the separator is
  pushed. \<open>casing\<close> is \<open>this.casing.getColumnCasing\<close>.
\<close>

fun selection_chunk :: "(column \<Rightarrow> string) \<Rightarrow> bool \<Rightarrow> selected_field_value \<Rightarrow> sqlchunk list" where
  "selection_chunk casing isSingleTable (FieldAliased query fieldAlias isSelectionField) =
     (if isSelectionField then [Name fieldAlias]
      else [if isSingleTable then SQL (map (unqualify_chunk casing) query) else SQL query,
            SQL [StringChunk '' AS '', Name fieldAlias]])"
| "selection_chunk casing isSingleTable (FieldSQL query) =
     [if isSingleTable then SQL (map (unqualify_chunk casing) query) else SQL query]"
| "selection_chunk casing isSingleTable (FieldColumn field) =
     [if isSingleTable then Name (casing field) else ColumnChunk field]"
| "selection_chunk casing isSingleTable (FieldSubquery alias query) =
     [SubqueryChunk alias query]"

definition buildSelection :: "(column \<Rightarrow> string) \<Rightarrow> selected_field list \<Rightarrow> bool \<Rightarrow> sqlchunk" where
  "buildSelection casing fieldsList isSingleTable =
     (let columnsLen = length fieldsList in
      SQL (flatMap_indexed
             (\<lambda>f i. selection_chunk casing isSingleTable (sf_field f)
                    @ (if int i < int columnsLen - 1 then [SQL [StringChunk '', '']] else []))
             fieldsList))"

record view_config =
  view_name :: string
  view_schema :: "string option"
  view_originalName :: string

datatype from_table =
    FromTable SnowflakeTable
  | FromSubquery string "sqlchunk list"
  | FromSQL "sqlchunk list"

datatype join_table =
    JoinTable SnowflakeTable
  | JoinView view_config
  | JoinSubquery string "sqlchunk list"
  | JoinSQL "sqlchunk list"

record SnowflakeSelectJoinConfig =
  join_on :: "sqlchunk list option"
  join_table :: join_table
  join_alias :: "string option"
  join_joinType :: string

text \<open>\<open>schema ? sql`${sql.identifier(schema)}.` : undefined\<close>: the empty string is falsy.\<close>

definition schema_prefix :: "string option \<Rightarrow> sqlchunk" where
  "schema_prefix schema =
     (case schema of
        None \<Rightarrow> UndefinedChunk
      | Some s \<Rightarrow> if s = [] then UndefinedChunk else SQL [Name s, StringChunk ''.''])"

text \<open>\<open>alias && sql` ${sql.identifier(alias)}`\<close>: a falsy alias is embedded as it is.\<close>

definition alias_suffix :: "string option \<Rightarrow> sqlchunk" where
  "alias_suffix alias =
     (case alias of
        None \<Rightarrow> UndefinedChunk
      | Some a \<Rightarrow> if a = [] then Param (JStr []) None else SQL [StringChunk '' '', Name a])"

definition join_clause :: "SnowflakeSelectJoinConfig \<Rightarrow> sqlchunk" where
  "join_clause joinMeta =
     (let onSql = (case join_on joinMeta of
                     None \<Rightarrow> UndefinedChunk
                   | Some on \<Rightarrow> SQL [StringChunk '' ON '', SQL on])
      in case join_table joinMeta of
           JoinTable table \<Rightarrow>
             (let alias = (if tbl_Name table = tbl_OriginalName table then None
                           else join_alias joinMeta)
              in SQL [SQL [StringChunk (join_joinType joinMeta)], StringChunk '' JOIN '',
                      schema_prefix (tbl_Schema table), Name (tbl_OriginalName table),
                      alias_suffix alias, onSql])
         | JoinView view \<Rightarrow>
             (let alias = (if view_name view = view_originalName view then None
                           else join_alias joinMeta)
              in SQL [SQL [StringChunk (join_joinType joinMeta)], StringChunk '' JOIN '',
                      schema_prefix (view_schema view), Name (view_originalName view),
                      alias_suffix alias, onSql])
         | JoinSubquery a q \<Rightarrow>
             SQL [SQL [StringChunk (join_joinType joinMeta)], StringChunk '' JOIN '',
                  SubqueryChunk a q, onSql]
         | JoinSQL q \<Rightarrow>
             SQL [SQL [StringChunk (join_joinType joinMeta)], StringChunk '' JOIN '',
                  SQL q, onSql])"

definition buildJoins :: "SnowflakeSelectJoinConfig list option \<Rightarrow> sqlchunk" where
  "buildJoins joins =
     (case joins of
        None \<Rightarrow> UndefinedChunk
      | Some [] \<Rightarrow> UndefinedChunk
      | Some js \<Rightarrow>
          SQL (flatMap_indexed
                 (\<lambda>joinMeta index.
                    (if index = 0 then [SQL [StringChunk '' '']] else [])
                    @ [join_clause joinMeta]
                    @ (if int index < int (length js) - 1 then [SQL [StringChunk '' '']] else []))
                 js))"

definition buildFromTable :: "from_table \<Rightarrow> sqlchunk" where
  "buildFromTable table =
     (case table of
        FromTable t \<Rightarrow>
          if tbl_IsAlias t
          then (let fullName = SQL [Name (tbl_OriginalName t)];
                    fullName' = (case tbl_Schema t of
                                   None \<Rightarrow> fullName
                                 | Some s \<Rightarrow> if s = [] then fullName
                                            else SQL [Name s, StringChunk ''.'', fullName])
                in SQL [fullName', StringChunk '' '', Name (tbl_Name t)])
          else TableChunk t
      | FromSubquery a q \<Rightarrow> SubqueryChunk a q
      | FromSQL q \<Rightarrow> SQL q)"


datatype limit_value = LimitNumber int | LimitPlaceholder string

text \<open>\<open>typeof limit === 'object' || (typeof limit === 'number' && limit >= 0)\<close>.\<close>

definition limit_clause :: "limit_value option \<Rightarrow> sqlchunk" where
  "limit_clause limit =
     (case limit of
        None \<Rightarrow> UndefinedChunk
      | Some (LimitPlaceholder p) \<Rightarrow> SQL [StringChunk '' LIMIT '', Placeholder p]
      | Some (LimitNumber n) \<Rightarrow>
          if n \<ge> 0 then SQL [StringChunk '' LIMIT '', Param (JNum n) None] else UndefinedChunk)"

text \<open>\<open>offset ? sql` OFFSET ${offset}` : undefined\<close>: the number zero is falsy.\<close>

definition offset_clause :: "limit_value option \<Rightarrow> sqlchunk" where
  "offset_clause offset =
     (case offset of
        None \<Rightarrow> UndefinedChunk
      | Some (LimitPlaceholder p) \<Rightarrow> SQL [StringChunk '' OFFSET '', Placeholder p]
      | Some (LimitNumber n) \<Rightarrow>
          if n \<noteq> 0 then SQL [StringChunk '' OFFSET '', Param (JNum n) None] else UndefinedChunk)"

text \<open>A set operator; \<open>so_rightSelect\<close> is the fragment \<open>rightSelect.getSQL()\<close> returns.\<close>

record set_operator =
  so_rightSelect :: "sqlchunk list"
  so_type :: string
  so_isAll :: bool
  so_orderBy :: "sqlchunk list option"
  so_limit :: "limit_value option"
  so_offset :: "limit_value option"

definition set_order_by_value :: "sqlchunk \<Rightarrow> sqlchunk" where
  "set_order_by_value singleOrderBy =
     (case singleOrderBy of
        ColumnChunk c \<Rightarrow> Name (col_name c)
      | SQL chunks \<Rightarrow>
          SQL [SQL (map (\<lambda>chunk. case chunk of ColumnChunk c \<Rightarrow> Name (col_name c) | _ \<Rightarrow> chunk)
                      chunks)]
      | _ \<Rightarrow> SQL [singleOrderBy])"

definition buildSetOperationQuery :: "sqlchunk \<Rightarrow> set_operator \<Rightarrow> sqlchunk" where
  "buildSetOperationQuery leftSelect setOperator =
     (let leftChunk = SQL [StringChunk ''('', leftSelect, StringChunk '') ''];
          rightChunk = SQL [StringChunk ''('', SQL (so_rightSelect setOperator), StringChunk '')''];
          orderBySql =
            (case so_orderBy setOperator of
               None \<Rightarrow> UndefinedChunk
             | Some [] \<Rightarrow> UndefinedChunk
             | Some orderBy \<Rightarrow>
                 SQL [StringChunk '' ORDER BY '',
                      SQL (sql_join (SQL [StringChunk '', '']) (map set_order_by_value orderBy)),
                      StringChunk '' '']);
          limitSql = limit_clause (so_limit setOperator);
          operatorChunk =
            SQL [StringChunk (so_type setOperator @ '' ''
                              @ (if so_isAll setOperator then ''ALL '' else ''''))];
          offsetSql = offset_clause (so_offset setOperator)
      in SQL [leftChunk, operatorChunk, rightChunk, orderBySql, limitSql, offsetSql])"

fun buildSetOperations :: "sqlchunk \<Rightarrow> set_operator list \<Rightarrow> js_error + sqlchunk" where
  "buildSetOperations leftSelect [] =
     Inl (Error ''Cannot pass undefined values to any set operator'')"
| "buildSetOperations leftSelect [setOperator] =
     Inr (buildSetOperationQuery leftSelect setOperator)"
| "buildSetOperations leftSelect (setOperator # rest) =
     buildSetOperations (buildSetOperationQuery leftSelect setOperator) rest"

text \<open>
  The SELECT descriptor. \<open>sel_fields\<close> holds the ordered field list
  \<open>orderSelectedFields(fields)\<close> computes from the \<open>fields\<close> object (an external helper).
\<close>

record SnowflakeSelectConfig =
  sel_withList :: "subquery list option"
  sel_fields :: "selected_field list"
  sel_fieldsFlat :: "selected_field list option"
  sel_where :: "sqlchunk list option"
  sel_having :: "sqlchunk list option"
  sel_table :: from_table
  sel_limit :: "limit_value option"
  sel_offset :: "limit_value option"
  sel_joins :: "SnowflakeSelectJoinConfig list option"
  sel_orderBy :: "sqlchunk list option"
  sel_groupBy :: "sqlchunk list option"
  sel_distinct :: "bool option"
  sel_setOperators :: "set_operator list"

text \<open>
  The name the owning table of a column is compared with:
  \<open>is(table, Subquery) ? table._.alias : is(table, SQL) ? undefined : getTableName(table)\<close>.
\<close>

definition root_table_name :: "from_table \<Rightarrow> string option" where
  "root_table_name table =
     (case table of
        FromSubquery alias q \<Rightarrow> Some alias
      | FromSQL q \<Rightarrow> None
      | FromTable t \<Rightarrow> Some (tbl_Name t))"

text \<open>
  \<open>joins?.some(({ alias }) => alias === (table[IsAlias] ? getTableName(table) : table[BaseName]))\<close>;
  an absent join list gives \<open>undefined\<close>, which is falsy.
\<close>

definition joins_some_alias :: "SnowflakeSelectJoinConfig list option \<Rightarrow> SnowflakeTable \<Rightarrow> bool" where
  "joins_some_alias joins table =
     (case joins of
        None \<Rightarrow> False
      | Some js \<Rightarrow>
          list_ex (\<lambda>j. join_alias j = Some (if tbl_IsAlias table then tbl_Name table
                                            else tbl_BaseName table)) js)"

definition missing_table_message :: "string list \<Rightarrow> string \<Rightarrow> string \<Rightarrow> string" where
  "missing_table_message path tableName columnName =
     ''Your '' @ [CHR 0x22] @ join ''->'' path @ [CHR 0x22]
     @ '' field references a column '' @ [CHR 0x22] @ tableName @ [CHR 0x22] @ ''.''
     @ [CHR 0x22] @ columnName @ [CHR 0x22] @ '', but the table '' @ [CHR 0x22] @ tableName
     @ [CHR 0x22] @ '' is not part of the query! Did you forget to join it?''"

text \<open>The validation loop: the first offending field throws.\<close>

fun check_fields ::
  "from_table \<Rightarrow> SnowflakeSelectJoinConfig list option \<Rightarrow> selected_field list \<Rightarrow> js_error option" where
  "check_fields table joins [] = None"
| "check_fields table joins (f # fs) =
     (case sf_field f of
        FieldColumn c \<Rightarrow>
          if Some (tbl_Name (col_table c)) \<noteq> root_table_name table
             \<and> \<not> joins_some_alias joins (col_table c)
          then Some (Error (missing_table_message (sf_path f) (tbl_Name (col_table c))
                              (col_name c)))
          else check_fields table joins fs
      | _ \<Rightarrow> check_fields table joins fs)"

text \<open>\<open>fieldsFlat ?? orderSelectedFields(fields)\<close>.\<close>

definition fields_list :: "SnowflakeSelectConfig \<Rightarrow> selected_field list" where
  "fields_list config =
     (case sel_fieldsFlat config of Some ff \<Rightarrow> ff | None \<Rightarrow> sel_fields config)"

text \<open>\<open>!joins || joins.length === 0\<close>.\<close>

definition isSingleTable :: "SnowflakeSelectJoinConfig list option \<Rightarrow> bool" where
  "isSingleTable joins = (joins = None \<or> joins = Some [])"

definition buildSelectQuery :: "(column \<Rightarrow> string) \<Rightarrow> SnowflakeSelectConfig \<Rightarrow> js_error + sqlchunk" where
  "buildSelectQuery casing config =
     (let fieldsList = fields_list config
      in case check_fields (sel_table config) (sel_joins config) fieldsList of
           Some err \<Rightarrow> Inl err
         | None \<Rightarrow>
             (let single = isSingleTable (sel_joins config);
                  withSql = buildWithCTE (sel_withList config);
                  distinctSql = (if sel_distinct config = Some True
                                 then SQL [StringChunk '' DISTINCT''] else UndefinedChunk);
                  selection = buildSelection casing fieldsList single;
                  tableSql = buildFromTable (sel_table config);
                  joinsSql = buildJoins (sel_joins config);
                  whereSql = (case sel_where config of
                                None \<Rightarrow> UndefinedChunk
                              | Some w \<Rightarrow> SQL [StringChunk '' WHERE '', SQL w]);
                  havingSql = (case sel_having config of
                                 None \<Rightarrow> UndefinedChunk
                               | Some h \<Rightarrow> SQL [StringChunk '' HAVING '', SQL h]);
                  orderBySql = (case sel_orderBy config of
                                  None \<Rightarrow> UndefinedChunk
                                | Some [] \<Rightarrow> UndefinedChunk
                                | Some orderBy \<Rightarrow>
                                    SQL [StringChunk '' ORDER BY '',
                                         SQL (sql_join (SQL [StringChunk '', '']) orderBy)]);
                  groupBySql = (case sel_groupBy config of
                                  None \<Rightarrow> UndefinedChunk
                                | Some [] \<Rightarrow> UndefinedChunk
                                | Some groupBy \<Rightarrow>
                                    SQL [StringChunk '' GROUP BY '',
                                         SQL (sql_join (SQL [StringChunk '', '']) groupBy)]);
                  limitSql = limit_clause (sel_limit config);
                  offsetSql = offset_clause (sel_offset config);
                  finalQuery = SQL [withSql, StringChunk ''SELECT'', distinctSql, StringChunk '' '',
                                    selection, StringChunk '' FROM '', tableSql, joinsSql, whereSql,
                                    groupBySql, havingSql, orderBySql, limitSql, offsetSql]
              in if sel_setOperators config \<noteq> []
                 then buildSetOperations finalQuery (sel_setOperators config)
                 else Inr finalQuery))"

text \<open>
  INSERT. A row maps field names to a bound parameter (\<open>Param\<close>, with its value and
  encoder) or a fragment; \<open>values\<close> is a list of rows, a fragment, or a query builder
  (given by the fragment its \<open>getSQL()\<close> returns). \<open>ins_columns\<close> is
  \<open>Object.entries(table[Table.Symbol.Columns])\<close>.
\<close>

datatype row_value = RowParam jsval "column option" | RowSQL "sqlchunk list"

datatype insert_values =
    ValueRows "(string \<Rightarrow> row_value option) list"
  | ValueSQL "sqlchunk list"
  | ValueQueryBuilder "sqlchunk list"

record SnowflakeInsertConfig =
  ins_table :: SnowflakeTable
  ins_columns :: "(string \<times> column) list"
  ins_values :: insert_values
  ins_onConflict :: "sqlchunk list option"
  ins_returning :: "selected_field list option"
  ins_withList :: "subquery list option"
  ins_select :: "bool option"

text \<open>\<open>is(result, SQL) ? result : sql.param(result, col)\<close>.\<close>

definition generated_value :: "sql_or_value \<Rightarrow> column \<Rightarrow> sqlchunk" where
  "generated_value result col = (case result of IsSQL q \<Rightarrow> SQL q | IsValue v \<Rightarrow> Param v (Some col))"

text \<open>\<open>!col.default\<close>: a fragment is an object and truthy; a plain value is tested as it is.\<close>

definition default_is_falsy :: "sql_or_value \<Rightarrow> bool" where
  "default_is_falsy d = (case d of IsSQL q \<Rightarrow> False | IsValue v \<Rightarrow> \<not> truthy v)"

text \<open>The body of the inner loop of \<open>buildInsertQuery\<close>: the chunk pushed for one column.\<close>

text \<open>\<open>colValue === undefined || (is(colValue, Param) && colValue.value === undefined)\<close>.\<close>

definition value_is_unset :: "row_value option \<Rightarrow> bool" where
  "value_is_unset colValue =
     (case colValue of
        None \<Rightarrow> True
      | Some (RowParam v enc) \<Rightarrow> v = JUndefined
      | Some (RowSQL q) \<Rightarrow> False)"

definition insert_column_value :: "column \<Rightarrow> row_value option \<Rightarrow> sqlchunk" where
  "insert_column_value col colValue =
     (if value_is_unset colValue
      then (if col_defaultFn col \<noteq> None
            then generated_value (the (col_defaultFn col)) col
            else if default_is_falsy (col_default col) \<and> col_onUpdateFn col \<noteq> None
            then generated_value (the (col_onUpdateFn col)) col
            else SQL [StringChunk ''DEFAULT''])
      else (case the colValue of RowParam v enc \<Rightarrow> Param v enc | RowSQL q \<Rightarrow> SQL q))"

definition buildInsertQuery :: "(column \<Rightarrow> string) \<Rightarrow> SnowflakeInsertConfig \<Rightarrow> js_error + sqlchunk" where
  "buildInsertQuery casing config =
     (let colEntries = filter (\<lambda>(n, col). \<not> col_disableInsert col) (ins_columns config);
          insertOrder = map (\<lambda>(n, column). Name (casing column)) colEntries;
          withSql = buildWithCTE (ins_withList config);
          finish = (\<lambda>valuesSqlList.
                      Inr (SQL [withSql, StringChunk ''INSERT INTO '', TableChunk (ins_table config),
                                StringChunk '' '', ArrayChunk insertOrder, StringChunk '' '',
                                SQL valuesSqlList]))
      in if ins_select config = Some True
         then (case ins_values config of
                 ValueSQL select \<Rightarrow> finish [SQL select]
               | ValueQueryBuilder select \<Rightarrow> finish [SQL select]
               | ValueRows rows \<Rightarrow> Inl (TypeError ''select.getSQL is not a function''))
         else (case ins_values config of
                 ValueRows values \<Rightarrow>
                   finish ([SQL [StringChunk ''VALUES '']]
                           @ flatMap_indexed
                               (\<lambda>value valueIndex.
                                  [ArrayChunk (map (\<lambda>(fieldName, col).
                                                      insert_column_value col (value fieldName))
                                                 colEntries)]
                                  @ (if int valueIndex < int (length values) - 1
                                     then [SQL [StringChunk '', '']] else []))
                               values)
               | _ \<Rightarrow> Inl (TypeError ''values.entries is not a function'')))"

text \<open>
  Modelled from the spec: the serialization of a fragment to SQL text, done by the
  external fragment builder (\<open>sql.toQuery\<close>) with the dialect's escaping callbacks. Raw
  text is emitted as it is, an identifier goes through \<open>escapeName\<close>, every bound value
  and named placeholder is the single positionless placeholder token, a bare column is
  qualified with the name of its table, a table is its schema-qualified original name,
  an aliased fragment is its alias, a subquery is parenthesised and followed by its alias,
  an array of chunks is a parenthesised comma-separated list, and \<open>undefined\<close> is empty.
\<close>

fun render :: "(column \<Rightarrow> string) \<Rightarrow> sqlchunk \<Rightarrow> string" where
  "render casing (StringChunk s) = s"
| "render casing (Name n) = escapeName n"
| "render casing (ColumnChunk c) =
     escapeName (tbl_Name (col_table c)) @ ''.'' @ escapeName (casing c)"
| "render casing (TableChunk t) =
     (case tbl_Schema t of
        None \<Rightarrow> escapeName (tbl_OriginalName t)
      | Some s \<Rightarrow> escapeName s @ ''.'' @ escapeName (tbl_OriginalName t))"
| "render casing (Param v enc) = escapeParam 0"
| "render casing (SQL cs) = concat (map (render casing) cs)"
| "render casing (ArrayChunk cs) = ''('' @ join '', '' (map (render casing) cs) @ '')''"
| "render casing (SubqueryChunk alias q) =
     ''('' @ concat (map (render casing) q) @ '') '' @ escapeName alias"
| "render casing (AliasedChunk q alias isSelectionField) = escapeName alias"
| "render casing (Placeholder p) = escapeParam 0"
| "render casing UndefinedChunk = []"



text \<open>Pieces with a separator between consecutive ones: what the indexed loops build.\<close>

fun sep_chunks :: "('a \<Rightarrow> 'b list) \<Rightarrow> 'b \<Rightarrow> 'a list \<Rightarrow> 'b list" where
  "sep_chunks g s [] = []"
| "sep_chunks g s [x] = g x"
| "sep_chunks g s (x # y # ys) = g x @ [s] @ sep_chunks g s (y # ys)"

text \<open>Example tables, columns and descriptors, for the concrete instances below.\<close>

definition users_table :: SnowflakeTable where
  "users_table = \<lparr>tbl_Name = ''users'', tbl_OriginalName = ''users'', tbl_Schema = None,
                   tbl_BaseName = ''users'', tbl_IsAlias = False\<rparr>"

definition orders_table :: SnowflakeTable where
  "orders_table = \<lparr>tbl_Name = ''orders'', tbl_OriginalName = ''orders'', tbl_Schema = None,
                    tbl_BaseName = ''orders'', tbl_IsAlias = False\<rparr>"

definition plain_builder :: "string \<Rightarrow> column_type \<Rightarrow> SnowflakeColumnBuilder" where
  "plain_builder name ty =
     \<lparr>cb_config = \<lparr>cfg_name = name, cfg_uniqueName = None, cfg_default = IsValue JUndefined,
                    cfg_defaultFn = None, cfg_onUpdateFn = None, cfg_disableInsert = False\<rparr>,
      cb_type = ty\<rparr>"

definition plain_column :: "string \<Rightarrow> SnowflakeTable \<Rightarrow> column_type \<Rightarrow> column" where
  "plain_column name table ty = fst (SnowflakeColumnBuilder_build (plain_builder name ty) table)"

definition users_id :: column where
  "users_id = plain_column ''id'' users_table SnowflakeInteger"

definition users_name :: column where
  "users_name = plain_column ''name'' users_table (SnowflakeVarchar (Some 255))"

definition orders_total :: column where
  "orders_total = plain_column ''total'' orders_table (SnowflakeNumber (Some 10) (Some 2))"

text \<open>\<open>integer('version').default(0).$onUpdate(() => 1)\<close> on the table \<open>users\<close>.\<close>

definition users_version :: column where
  "users_version =
     fst (SnowflakeColumn_new users_table
            \<lparr>cfg_name = ''version'', cfg_uniqueName = None, cfg_default = IsValue (JNum 0),
             cfg_defaultFn = None, cfg_onUpdateFn = Some (IsValue (JNum 1)),
             cfg_disableInsert = False\<rparr> SnowflakeInteger)"

text \<open>The same column with the static default \<open>5\<close>.\<close>

definition users_version5 :: column where
  "users_version5 =
     fst (SnowflakeColumn_new users_table
            \<lparr>cfg_name = ''version'', cfg_uniqueName = None, cfg_default = IsValue (JNum 5),
             cfg_defaultFn = None, cfg_onUpdateFn = Some (IsValue (JNum 1)),
             cfg_disableInsert = False\<rparr> SnowflakeInteger)"

definition select_config ::
  "from_table \<Rightarrow> SnowflakeSelectJoinConfig list option \<Rightarrow> selected_field list \<Rightarrow> SnowflakeSelectConfig" where
  "select_config table joins fieldsList =
     \<lparr>sel_withList = None, sel_fields = fieldsList, sel_fieldsFlat = None, sel_where = None,
      sel_having = None, sel_table = table, sel_limit = None, sel_offset = None,
      sel_joins = joins, sel_orderBy = None, sel_groupBy = None, sel_distinct = None,
      sel_setOperators = []\<rparr>"

definition column_field :: "string \<Rightarrow> column \<Rightarrow> selected_field" where
  "column_field key c = \<lparr>sf_path = [key], sf_field = FieldColumn c\<rparr>"

definition orders_join :: SnowflakeSelectJoinConfig where
  "orders_join = \<lparr>join_on = Some [ColumnChunk users_id, StringChunk '' = '', ColumnChunk orders_total],
                   join_table = JoinTable orders_table, join_alias = Some ''orders'',
                   join_joinType = ''left''\<rparr>"

definition name_of_column :: "column \<Rightarrow> string" where
  "name_of_column c = col_name c"






section \<open>Column types: the documented type strings\<close>

lemma show_int_255: "show_int 255 = ''255''"
  by code_simp

lemma show_int_10: "show_int 10 = ''10''"
  by code_simp

lemma show_int_2: "show_int 2 = ''2''"
  by code_simp

lemma show_int_6: "show_int 6 = ''6''"
  by code_simp

text \<open>
  C7. \<open>getSQLType()\<close> follows the documented grammar. In general: a varchar of length
  \<open>n\<close> is \<open>varchar(n)\<close> and \<open>varchar\<close> without a length; a number with precision and
  scale is \<open>number(p, s)\<close> and \<open>number\<close> without a configuration; a timestamp is
  \<open>timestamp_ntz\<close> or \<open>timestamp_tz\<close>, followed by \<open>(p)\<close> when a precision is given.
  In particular the documented instances hold: \<open>varchar(255)\<close>, \<open>varchar\<close>,
  \<open>number(10, 2)\<close>, \<open>number\<close>, \<open>timestamp_ntz\<close>, \<open>timestamp_ntz(6)\<close>, \<open>timestamp_tz\<close>.
\<close>

theorem getSQLType_documented_grammar:
  "getSQLType (varchar \<lparr>vc_length = Some n\<rparr>) = ''varchar('' @ show_int n @ '')''
   \<and> getSQLType (number \<lparr>nc_precision = Some p, nc_scale = Some s\<rparr>)
       = ''number('' @ show_int p @ '', '' @ show_int s @ '')''
   \<and> getSQLType (timestamp \<lparr>tc_withTimezone = None, tc_precision = Some p, tc_mode = m\<rparr>)
       = ''timestamp_ntz('' @ show_int p @ '')''
   \<and> getSQLType (timestamp \<lparr>tc_withTimezone = Some True, tc_precision = None, tc_mode = m\<rparr>)
       = ''timestamp_tz''
   \<and> getSQLType (varchar \<lparr>vc_length = Some 255\<rparr>) = ''varchar(255)''
   \<and> getSQLType (varchar empty_varchar_config) = ''varchar''
   \<and> getSQLType (number \<lparr>nc_precision = Some 10, nc_scale = Some 2\<rparr>) = ''number(10, 2)''
   \<and> getSQLType (number empty_number_config) = ''number''
   \<and> getSQLType (timestamp empty_timestamp_config) = ''timestamp_ntz''
   \<and> getSQLType (timestamp \<lparr>tc_withTimezone = None, tc_precision = Some 6, tc_mode = None\<rparr>)
       = ''timestamp_ntz(6)''
   \<and> getSQLType (timestamp \<lparr>tc_withTimezone = Some True, tc_precision = None, tc_mode = None\<rparr>)
       = ''timestamp_tz''"
  by (simp add: varchar_def number_def timestamp_def empty_varchar_config_def
      empty_number_config_def empty_timestamp_config_def
      show_int_255 show_int_10 show_int_2 show_int_6)

section \<open>Identifier escaping\<close>

lemma length_double_quotes:
  "length (concat (map (\<lambda>c. if c = q then [q, q] else [c]) s))
     = length s + length (filter (\<lambda>c. c = q) s)"
  by (induction s) simp_all

lemma double_quotes_id:
  "q \<notin> set s \<Longrightarrow> concat (map (\<lambda>c. if c = q then [q, q] else [c]) s) = s"
  by (induction s) auto

lemma double_quotes_changes:
  assumes "q \<in> set s"
  shows "concat (map (\<lambda>c. if c = q then [q, q] else [c]) s) \<noteq> s"
proof
  assume eq: "concat (map (\<lambda>c. if c = q then [q, q] else [c]) s) = s"
  from assms have "filter (\<lambda>c. c = q) s \<noteq> []"
    by (simp add: filter_empty_conv)
  then have "0 < length (filter (\<lambda>c. c = q) s)"
    by simp
  moreover have "length (filter (\<lambda>c. c = q) s) = 0"
    using length_double_quotes [of q s] eq by simp
  ultimately show False
    by simp
qed

text \<open>
  C8, as stated, fails: the name \<open>a"b\<close> is wrapped as it is, its double quote is not
  doubled, and the result is not the SQL-92 quoting of the name.
\<close>

theorem escapeName_sql92_counterexample:
  "escapeName [CHR ''a'', CHR 0x22, CHR ''b''] = [CHR 0x22, CHR ''a'', CHR 0x22, CHR ''b'', CHR 0x22]
   \<and> escapeName [CHR ''a'', CHR 0x22, CHR ''b'']
       \<noteq> sql92_quote_identifier [CHR ''a'', CHR 0x22, CHR ''b'']"
  by (simp add: escapeName_def sql92_quote_identifier_def)

text \<open>
  C8, amended. For every identifier string, \<open>escapeName\<close> returns the name between two
  double quotes, verbatim: no case folding and no escaping of embedded double quotes.
  The result is the SQL-92 quoting of the name exactly when the name contains no
  double quote.
\<close>

theorem escapeName_verbatim:
  "escapeName name = CHR 0x22 # name @ [CHR 0x22]
   \<and> (escapeName name = sql92_quote_identifier name) = (CHR 0x22 \<notin> set name)"
proof -
  have "(escapeName name = sql92_quote_identifier name) = (CHR 0x22 \<notin> set name)"
    using double_quotes_id [of "CHR 0x22" name] double_quotes_changes [of "CHR 0x22" name]
    by (auto simp: escapeName_def sql92_quote_identifier_def)
  then show ?thesis
    by (simp add: escapeName_def)
qed

theorem escapeName_verbatim_witness:
  "escapeName ''Column'' = CHR 0x22 # ''Column'' @ [CHR 0x22]
   \<and> escapeName ''Column'' = sql92_quote_identifier ''Column''"
  using escapeName_verbatim [of "''Column''"] by auto

section \<open>Constraint names\<close>

lemma join_Cons: "join sep (x # xs) = x @ concat (map (\<lambda>y. sep @ y) xs)"
  by (induction xs arbitrary: x) simp_all

lemma plain_column_eq:
  "plain_column name table ty
     = Column name table ty (Some (uniqueKeyName table [name])) (IsValue JUndefined)
         None None False"
  by (simp add: plain_column_def plain_builder_def SnowflakeColumnBuilder_build_def
      SnowflakeColumn_new_def)

text \<open>
  The names the constructors derive. A unique constraint on table \<open>T\<close> over columns
  \<open>C1..Cn\<close> without a name is named \<open>T_C1_..._Cn_unique\<close>; a column constructed from
  a configuration that carries no unique name is named \<open>T_C_unique\<close>, and the
  configuration carries that name afterwards; a primary key is named \<open>T_C1_..._Cn_pk\<close>;
  the name of a foreign key is the underscore-joined list of the table, its columns, the
  foreign table and the foreign columns, followed by \<open>_fk\<close>.
\<close>

lemma derived_constraint_names:
  "uc_name (UniqueConstraint_new T (c # cs) nnd None)
     = tbl_Name T @ concat (map (\<lambda>x. ''_'' @ col_name x) (c # cs)) @ ''_unique''
   \<and> uc_name (UniqueConstraint_new T cols nnd None)
       = tbl_Name T @ ''_'' @ join ''_'' (map col_name cols) @ ''_unique''
   \<and> col_uniqueName (fst (SnowflakeColumn_new T (config\<lparr>cfg_uniqueName := None\<rparr>) ty))
       = Some (tbl_Name T @ ''_'' @ cfg_name config @ ''_unique'')
   \<and> cfg_uniqueName (snd (SnowflakeColumn_new T (config\<lparr>cfg_uniqueName := None\<rparr>) ty))
       = Some (tbl_Name T @ ''_'' @ cfg_name config @ ''_unique'')
   \<and> pk_name (PrimaryKey_new T (c # cs) None)
       = tbl_Name T @ concat (map (\<lambda>x. ''_'' @ col_name x) (c # cs)) @ ''_pk''
   \<and> ForeignKey_getName
         \<lparr>fk_table = T, fk_reference = \<lparr>fkc_columns = cols, fkc_foreignColumns = fc # fcs\<rparr>,
          fk_onUpdate = u, fk_onDelete = d\<rparr>
       = Inr (tbl_Name T @ concat (map (\<lambda>x. ''_'' @ col_name x) cols)
              @ ''_'' @ tbl_Name (col_table fc)
              @ concat (map (\<lambda>x. ''_'' @ col_name x) (fc # fcs)) @ ''_fk'')"
  by (simp add: UniqueConstraint_new_def uniqueKeyName_def SnowflakeColumn_new_def
      PrimaryKey_new_def primaryKeyName_def ForeignKey_getName_def join_Cons o_def)

text \<open>
  C9 at the column builder \<open>integer('id')\<close> used for the tables \<open>users\<close> and then
  \<open>orders\<close>, with no unique name ever supplied. The constructor of the first column
  writes \<open>users_id_unique\<close> into the builder's configuration; the constructor of the
  second column finds a name there and keeps it, so the column \<open>id\<close> of \<open>orders\<close>
  is named \<open>users_id_unique\<close>, not \<open>orders_id_unique\<close>. Built from a fresh builder,
  the same column is named \<open>orders_id_unique\<close>.
\<close>

theorem reused_builder_keeps_first_table_name:
  "col_uniqueName
      (fst (SnowflakeColumnBuilder_build (plain_builder ''id'' SnowflakeInteger) users_table))
     = Some ''users_id_unique''
   \<and> col_table
        (fst (SnowflakeColumnBuilder_build
                (snd (SnowflakeColumnBuilder_build (plain_builder ''id'' SnowflakeInteger)
                        users_table))
                orders_table))
       = orders_table
   \<and> col_uniqueName
        (fst (SnowflakeColumnBuilder_build
                (snd (SnowflakeColumnBuilder_build (plain_builder ''id'' SnowflakeInteger)
                        users_table))
                orders_table))
       = Some ''users_id_unique''
   \<and> uniqueKeyName orders_table [''id''] = ''orders_id_unique''
   \<and> col_uniqueName
        (fst (SnowflakeColumnBuilder_build (plain_builder ''id'' SnowflakeInteger) orders_table))
       = Some ''orders_id_unique''"
  by (simp add: SnowflakeColumnBuilder_build_def SnowflakeColumn_new_def plain_builder_def
      uniqueKeyName_def users_table_def orders_table_def)

section \<open>Foreign-key actions\<close>

text \<open>
  C10. A foreign-key builder constructed with an actions object takes both actions
  verbatim from the object's fields: a field the object omits leaves the action
  undefined. The \<open>'no action'\<close> default survives only when no actions object is passed.
\<close>

theorem ForeignKeyBuilder_actions_verbatim:
  "fkb_onUpdate (ForeignKeyBuilder_new config (Some a)) = act_onUpdate a
   \<and> fkb_onDelete (ForeignKeyBuilder_new config (Some a)) = act_onDelete a
   \<and> fkb_onUpdate (ForeignKeyBuilder_new config (Some \<lparr>act_onUpdate = None, act_onDelete = d\<rparr>))
       = None
   \<and> fkb_onDelete (ForeignKeyBuilder_new config (Some \<lparr>act_onUpdate = u, act_onDelete = None\<rparr>))
       = None
   \<and> fkb_onUpdate (ForeignKeyBuilder_new config None) = Some NoAction
   \<and> fkb_onDelete (ForeignKeyBuilder_new config None) = Some NoAction"
  by (simp add: ForeignKeyBuilder_new_def)

section \<open>Transactions\<close>

lemma connection_execute_ok:
  "drv log sqlText = None \<Longrightarrow> connection_execute drv sqlText log = (Inr (), log @ [sqlText])"
  by (simp add: connection_execute_def)

lemma connection_execute_err:
  "drv log sqlText = Some e \<Longrightarrow> connection_execute drv sqlText log = (Inl e, log @ [sqlText])"
  by (simp add: connection_execute_def)

lemma rollback_and_rethrow_eq:
  "rollback_and_rethrow drv error log =
     (Inl (case drv log ''ROLLBACK'' of None \<Rightarrow> error | Some err \<Rightarrow> err), log @ [''ROLLBACK''])"
  by (simp add: rollback_and_rethrow_def connection_execute_def split: option.splits)

lemma nested_transactions_eq:
  "nested_transactions n inner tx log
     = inner (tx\<lparr>tx_nestedIndex := tx_nestedIndex tx + n\<rparr>) log"
proof (induction n arbitrary: tx)
  case 0
  show ?case by simp
next
  case (Suc n)
  show ?case
    by (cases tx)
      (simp add: SnowflakeSdkTransaction_transaction_def SnowflakeSdkTransaction_new_def Suc)
qed

lemma run_body_appends:
  "\<exists>ss. snd (run_body drv b tx log) = log @ ss \<and> set ss \<subseteq> set (statements b)"
proof (induction b arbitrary: tx log)
  case (Execute sqlText)
  show ?case by (simp add: connection_execute_def)
next
  case (Nested b)
  show ?case
    using Nested [of "SnowflakeSdkTransaction_new (tx_connection tx) (tx_dialect tx)
                        (tx_session tx) (tx_schema tx) (tx_options tx) (tx_nestedIndex tx + 1)" log]
    by (simp add: SnowflakeSdkTransaction_transaction_def)
next
  case (Sequence a b)
  obtain ra la where ra: "run_body drv a tx log = (ra, la)"
    by (cases "run_body drv a tx log")
  obtain s1 where s1: "la = log @ s1" "set s1 \<subseteq> set (statements a)"
    using Sequence(1) [of tx log] ra by auto
  show ?case
  proof (cases ra)
    case (Inl e)
    with ra s1 show ?thesis by auto
  next
    case (Inr r)
    obtain s2 where s2: "snd (run_body drv b tx la) = la @ s2" "set s2 \<subseteq> set (statements b)"
      using Sequence(2) [of tx la] by auto
    have "snd (run_body drv (Sequence a b) tx log) = log @ (s1 @ s2)"
      using ra Inr s1 s2 by simp
    moreover have "set (s1 @ s2) \<subseteq> set (statements (Sequence a b))"
      using s1 s2 by auto
    ultimately show ?thesis by blast
  qed
next
  case (Throw e)
  show ?case by simp
next
  case (TryCatch a b)
  obtain ra la where ra: "run_body drv a tx log = (ra, la)"
    by (cases "run_body drv a tx log")
  obtain s1 where s1: "la = log @ s1" "set s1 \<subseteq> set (statements a)"
    using TryCatch(1) [of tx log] ra by auto
  show ?case
  proof (cases ra)
    case (Inr r)
    with ra s1 show ?thesis by auto
  next
    case (Inl e)
    obtain s2 where s2: "snd (run_body drv b tx la) = la @ s2" "set s2 \<subseteq> set (statements b)"
      using TryCatch(2) [of tx la] by auto
    have "snd (run_body drv (TryCatch a b) tx log) = log @ (s1 @ s2)"
      using ra Inl s1 s2 by simp
    moreover have "set (s1 @ s2) \<subseteq> set (statements (TryCatch a b))"
      using s1 s2 by auto
    ultimately show ?thesis by blast
  qed
next
  case Resolve
  show ?case by simp
qed

lemma session_transaction_statements:
  assumes begin_ok: "drv log ''BEGIN TRANSACTION'' = None"
    and run: "transaction (SnowflakeSdkTransaction_new (ses_connection s) (ses_dialect s) s
                 (ses_schema s) (ses_options s) 0) (log @ [''BEGIN TRANSACTION''])
              = (outcome, log @ [''BEGIN TRANSACTION''] @ stmts)"
  shows "issued log (snd (SnowflakeSdkSession_transaction drv s transaction log))
           = [''BEGIN TRANSACTION''] @ stmts
             @ (case outcome of
                  Inl e \<Rightarrow> [''ROLLBACK'']
                | Inr r \<Rightarrow>
                    (case drv (log @ [''BEGIN TRANSACTION''] @ stmts) ''COMMIT'' of
                       None \<Rightarrow> [''COMMIT'']
                     | Some e \<Rightarrow> [''COMMIT'', ''ROLLBACK'']))"
proof (cases outcome)
  case (Inl e)
  have "snd (SnowflakeSdkSession_transaction drv s transaction log)
          = log @ [''BEGIN TRANSACTION''] @ stmts @ [''ROLLBACK'']"
    unfolding SnowflakeSdkSession_transaction_def Let_def
    using connection_execute_ok [of drv log "''BEGIN TRANSACTION''"] begin_ok run Inl
    by (simp add: rollback_and_rethrow_eq)
  with Inl show ?thesis by (simp add: issued_def)
next
  case (Inr r)
  show ?thesis
  proof (cases "drv (log @ [''BEGIN TRANSACTION''] @ stmts) ''COMMIT''")
    case None
    have "snd (SnowflakeSdkSession_transaction drv s transaction log)
            = log @ [''BEGIN TRANSACTION''] @ stmts @ [''COMMIT'']"
      unfolding SnowflakeSdkSession_transaction_def Let_def
      using connection_execute_ok [of drv log "''BEGIN TRANSACTION''"] begin_ok run Inr
        connection_execute_ok [of drv "log @ [''BEGIN TRANSACTION''] @ stmts" "''COMMIT''"] None
      by simp
    with Inr None show ?thesis by (simp add: issued_def)
  next
    case (Some err)
    have "snd (SnowflakeSdkSession_transaction drv s transaction log)
            = log @ [''BEGIN TRANSACTION''] @ stmts @ [''COMMIT'', ''ROLLBACK'']"
      unfolding SnowflakeSdkSession_transaction_def Let_def
      using connection_execute_ok [of drv log "''BEGIN TRANSACTION''"] begin_ok run Inr
        connection_execute_err [of drv "log @ [''BEGIN TRANSACTION''] @ stmts" "''COMMIT''" err]
        Some
      by (simp add: rollback_and_rethrow_eq)
    with Inr Some show ?thesis by (simp add: issued_def)
  qed
qed

lemma session_transaction_counts:
  assumes begin_ok: "drv log ''BEGIN TRANSACTION'' = None"
    and run: "transaction (SnowflakeSdkTransaction_new (ses_connection s) (ses_dialect s) s
                 (ses_schema s) (ses_options s) 0) (log @ [''BEGIN TRANSACTION''])
              = (outcome, log @ [''BEGIN TRANSACTION''] @ stmts)"
    and own: "set stmts \<inter> {''BEGIN TRANSACTION'', ''COMMIT'', ''ROLLBACK''} = {}"
  shows "count_list (issued log (snd (SnowflakeSdkSession_transaction drv s transaction log)))
           ''BEGIN TRANSACTION'' = 1"
    and "\<not> isl outcome \<Longrightarrow>
           count_list (issued log (snd (SnowflakeSdkSession_transaction drv s transaction log)))
             ''COMMIT'' = 1"
    and "isl outcome \<Longrightarrow>
           count_list (issued log (snd (SnowflakeSdkSession_transaction drv s transaction log)))
             ''COMMIT'' = 0"
    and "isl outcome \<Longrightarrow>
           count_list (issued log (snd (SnowflakeSdkSession_transaction drv s transaction log)))
             ''ROLLBACK'' = 1"
proof -
  note eq = session_transaction_statements
    [where drv = drv and log = log and transaction = transaction and s = s
       and outcome = outcome and stmts = stmts]
  have stm: "issued log (snd (SnowflakeSdkSession_transaction drv s transaction log))
           = [''BEGIN TRANSACTION''] @ stmts
             @ (case outcome of
                  Inl e \<Rightarrow> [''ROLLBACK'']
                | Inr r \<Rightarrow>
                    (case drv (log @ [''BEGIN TRANSACTION''] @ stmts) ''COMMIT'' of
                       None \<Rightarrow> [''COMMIT'']
                     | Some e \<Rightarrow> [''COMMIT'', ''ROLLBACK'']))"
    using eq begin_ok run by blast
  show "count_list (issued log (snd (SnowflakeSdkSession_transaction drv s transaction log)))
           ''BEGIN TRANSACTION'' = 1"
    using own by (auto simp: stm split: sum.splits option.splits)
  show "count_list (issued log (snd (SnowflakeSdkSession_transaction drv s transaction log)))
             ''COMMIT'' = 1" if "\<not> isl outcome"
    using own that by (auto simp: stm split: sum.splits option.splits)
  show "count_list (issued log (snd (SnowflakeSdkSession_transaction drv s transaction log)))
             ''COMMIT'' = 0" if "isl outcome"
    using own that by (auto simp: stm split: sum.splits option.splits)
  show "count_list (issued log (snd (SnowflakeSdkSession_transaction drv s transaction log)))
             ''ROLLBACK'' = 1" if "isl outcome"
    using own that by (auto simp: stm split: sum.splits option.splits)
qed

text \<open>
  C1, as stated, fails for a nested callback that raises: the nested request still adds
  no statement, but the whole operation then issues one \<open>BEGIN TRANSACTION\<close> and one
  \<open>ROLLBACK\<close>, and no \<open>COMMIT\<close> at all.
\<close>

theorem nested_raising_callback_counterexample:
  "SnowflakeSdkSession_transaction drv_ok example_session
      (nested_transactions (Suc 0) cb_throw) []
     = (Inl (Error ''Test error''), [''BEGIN TRANSACTION'', ''ROLLBACK''])
   \<and> count_list
         (issued [] (snd (SnowflakeSdkSession_transaction drv_ok example_session
                            (nested_transactions (Suc 0) cb_throw) [])))
         ''COMMIT'' = 0"
  by (simp add: SnowflakeSdkSession_transaction_def SnowflakeSdkTransaction_transaction_def
      rollback_and_rethrow_def connection_execute_def drv_ok_def cb_throw_def issued_def)

text \<open>
  C1, amended. A nested transaction request issues no statement of its own: the handle
  it builds has the same connection and session and the nesting counter plus one (plus
  \<open>n\<close> at depth \<open>n\<close>), the inner callback runs at once on the connection as it is, and
  the outcome and the statements of the request are the inner callback's. The whole
  operation therefore issues only the statements of the top-level transaction. Once
  \<open>BEGIN TRANSACTION\<close> has succeeded, and with callbacks that execute none of the three
  statements themselves, the connection sees exactly one \<open>BEGIN TRANSACTION\<close>; exactly
  one \<open>COMMIT\<close> when the top-level callback resolves; no \<open>COMMIT\<close> and exactly one
  \<open>ROLLBACK\<close> when the top-level callback raises. This holds for every top-level
  callback, and in particular for every callback body built from statements, nested
  requests, sequencing, raising and catching, however deep the nesting and however the
  nested callbacks end.
\<close>

theorem nested_transaction_issues_nothing:
  "SnowflakeSdkTransaction_transaction tx cb lg
     = cb (SnowflakeSdkTransaction_new (tx_connection tx) (tx_dialect tx) (tx_session tx)
             (tx_schema tx) (tx_options tx) (tx_nestedIndex tx + 1)) lg
   \<and> nested_transactions n inner tx lg
       = inner (SnowflakeSdkTransaction_new (tx_connection tx) (tx_dialect tx) (tx_session tx)
                  (tx_schema tx) (tx_options tx) (tx_nestedIndex tx + n)) lg
   \<and> (drv log ''BEGIN TRANSACTION'' = None
      \<and> transaction (SnowflakeSdkTransaction_new (ses_connection s) (ses_dialect s) s
                       (ses_schema s) (ses_options s) 0) (log @ [''BEGIN TRANSACTION''])
          = (outcome, log @ [''BEGIN TRANSACTION''] @ stmts)
      \<and> set stmts \<inter> {''BEGIN TRANSACTION'', ''COMMIT'', ''ROLLBACK''} = {}
      \<longrightarrow> (let after = issued log (snd (SnowflakeSdkSession_transaction drv s transaction log))
           in count_list after ''BEGIN TRANSACTION'' = 1
            \<and> (\<not> isl outcome \<longrightarrow> count_list after ''COMMIT'' = 1)
            \<and> (isl outcome \<longrightarrow> count_list after ''COMMIT'' = 0
                                \<and> count_list after ''ROLLBACK'' = 1)))
   \<and> (drv log ''BEGIN TRANSACTION'' = None
      \<and> set (statements b) \<inter> {''BEGIN TRANSACTION'', ''COMMIT'', ''ROLLBACK''} = {}
      \<longrightarrow> (let outcome = fst (run_body drv b
                                 (SnowflakeSdkTransaction_new (ses_connection s) (ses_dialect s)
                                    s (ses_schema s) (ses_options s) 0)
                                 (log @ [''BEGIN TRANSACTION'']));
               after = issued log (snd (SnowflakeSdkSession_transaction drv s
                                          (run_body drv b) log))
           in count_list after ''BEGIN TRANSACTION'' = 1
            \<and> (\<not> isl outcome \<longrightarrow> count_list after ''COMMIT'' = 1)
            \<and> (isl outcome \<longrightarrow> count_list after ''COMMIT'' = 0
                                \<and> count_list after ''ROLLBACK'' = 1)))"
proof -
  have a: "SnowflakeSdkTransaction_transaction tx cb lg
           = cb (SnowflakeSdkTransaction_new (tx_connection tx) (tx_dialect tx) (tx_session tx)
                   (tx_schema tx) (tx_options tx) (tx_nestedIndex tx + 1)) lg"
    by (simp add: SnowflakeSdkTransaction_transaction_def)
  have b: "nested_transactions n inner tx lg
       = inner (SnowflakeSdkTransaction_new (tx_connection tx) (tx_dialect tx) (tx_session tx)
                  (tx_schema tx) (tx_options tx) (tx_nestedIndex tx + n)) lg"
    by (cases tx) (simp add: nested_transactions_eq SnowflakeSdkTransaction_new_def)
  have c: "drv log ''BEGIN TRANSACTION'' = None
      \<and> transaction (SnowflakeSdkTransaction_new (ses_connection s) (ses_dialect s) s
                       (ses_schema s) (ses_options s) 0) (log @ [''BEGIN TRANSACTION''])
          = (outcome, log @ [''BEGIN TRANSACTION''] @ stmts)
      \<and> set stmts \<inter> {''BEGIN TRANSACTION'', ''COMMIT'', ''ROLLBACK''} = {}
      \<longrightarrow> (let after = issued log (snd (SnowflakeSdkSession_transaction drv s transaction log))
           in count_list after ''BEGIN TRANSACTION'' = 1
            \<and> (\<not> isl outcome \<longrightarrow> count_list after ''COMMIT'' = 1)
            \<and> (isl outcome \<longrightarrow> count_list after ''COMMIT'' = 0
                                \<and> count_list after ''ROLLBACK'' = 1))"
  proof (intro impI, elim conjE)
    assume h: "drv log ''BEGIN TRANSACTION'' = None"
      "transaction (SnowflakeSdkTransaction_new (ses_connection s) (ses_dialect s) s
                       (ses_schema s) (ses_options s) 0) (log @ [''BEGIN TRANSACTION''])
          = (outcome, log @ [''BEGIN TRANSACTION''] @ stmts)"
      "set stmts \<inter> {''BEGIN TRANSACTION'', ''COMMIT'', ''ROLLBACK''} = {}"
    note cnt = session_transaction_counts
      [where drv = drv and log = log and transaction = transaction and s = s
         and outcome = outcome and stmts = stmts, OF h]
    show "let after = issued log (snd (SnowflakeSdkSession_transaction drv s transaction log))
           in count_list after ''BEGIN TRANSACTION'' = 1
            \<and> (\<not> isl outcome \<longrightarrow> count_list after ''COMMIT'' = 1)
            \<and> (isl outcome \<longrightarrow> count_list after ''COMMIT'' = 0
                                \<and> count_list after ''ROLLBACK'' = 1)"
      unfolding Let_def using cnt by (intro conjI impI)
  qed
  have d: "drv log ''BEGIN TRANSACTION'' = None
      \<and> set (statements b) \<inter> {''BEGIN TRANSACTION'', ''COMMIT'', ''ROLLBACK''} = {}
      \<longrightarrow> (let outcome = fst (run_body drv b
                                 (SnowflakeSdkTransaction_new (ses_connection s) (ses_dialect s)
                                    s (ses_schema s) (ses_options s) 0)
                                 (log @ [''BEGIN TRANSACTION'']));
               after = issued log (snd (SnowflakeSdkSession_transaction drv s
                                          (run_body drv b) log))
           in count_list after ''BEGIN TRANSACTION'' = 1
            \<and> (\<not> isl outcome \<longrightarrow> count_list after ''COMMIT'' = 1)
            \<and> (isl outcome \<longrightarrow> count_list after ''COMMIT'' = 0
                                \<and> count_list after ''ROLLBACK'' = 1))"
  proof (intro impI, elim conjE)
    assume begin_ok: "drv log ''BEGIN TRANSACTION'' = None"
      and own: "set (statements b) \<inter> {''BEGIN TRANSACTION'', ''COMMIT'', ''ROLLBACK''} = {}"
    let ?tx0 = "SnowflakeSdkTransaction_new (ses_connection s) (ses_dialect s) s
                  (ses_schema s) (ses_options s) 0"
    obtain ss where ss: "snd (run_body drv b ?tx0 (log @ [''BEGIN TRANSACTION'']))
                           = (log @ [''BEGIN TRANSACTION'']) @ ss"
        "set ss \<subseteq> set (statements b)"
      using run_body_appends [of drv b ?tx0 "log @ [''BEGIN TRANSACTION'']"] by blast
    have run: "run_body drv b ?tx0 (log @ [''BEGIN TRANSACTION''])
                 = (fst (run_body drv b ?tx0 (log @ [''BEGIN TRANSACTION''])),
                    log @ [''BEGIN TRANSACTION''] @ ss)"
      using ss(1) by (simp add: prod_eq_iff)
    have free: "set ss \<inter> {''BEGIN TRANSACTION'', ''COMMIT'', ''ROLLBACK''} = {}"
      using ss(2) own by blast
    note cnt = session_transaction_counts
        [where drv = drv and log = log and transaction = "run_body drv b" and s = s
           and outcome = "fst (run_body drv b ?tx0 (log @ [''BEGIN TRANSACTION'']))"
           and stmts = ss, OF begin_ok run free]
    show "let outcome = fst (run_body drv b ?tx0 (log @ [''BEGIN TRANSACTION'']));
               after = issued log (snd (SnowflakeSdkSession_transaction drv s
                                          (run_body drv b) log))
           in count_list after ''BEGIN TRANSACTION'' = 1
            \<and> (\<not> isl outcome \<longrightarrow> count_list after ''COMMIT'' = 1)
            \<and> (isl outcome \<longrightarrow> count_list after ''COMMIT'' = 0
                                \<and> count_list after ''ROLLBACK'' = 1)"
      unfolding Let_def using cnt by (intro conjI impI)
  qed
  show ?thesis
    by (rule conjI [OF a conjI [OF b conjI [OF c d]]])
qed

theorem nested_transaction_issues_nothing_witness:
  "SnowflakeSdkSession_transaction drv_ok example_session
      (run_body drv_ok body_nested_then_throw) []
     = (Inl (Error ''Test error''),
        [''BEGIN TRANSACTION'', ''INSERT INTO users (name) VALUES (?)'', ''ROLLBACK''])
   \<and> (let after = issued [] (snd (SnowflakeSdkSession_transaction drv_ok example_session
                                    (run_body drv_ok body_nested_then_throw) []))
      in count_list after ''BEGIN TRANSACTION'' = 1
       \<and> count_list after ''COMMIT'' = 0
       \<and> count_list after ''ROLLBACK'' = 1)
   \<and> SnowflakeSdkSession_transaction drv_ok example_session
        (run_body drv_ok body_catch_nested_throw) []
     = (Inr (),
        [''BEGIN TRANSACTION'', ''INSERT INTO users (name) VALUES (?)'', ''COMMIT''])
   \<and> (let after = issued [] (snd (SnowflakeSdkSession_transaction drv_ok example_session
                                    (run_body drv_ok body_catch_nested_throw) []))
      in count_list after ''BEGIN TRANSACTION'' = 1
       \<and> count_list after ''COMMIT'' = 1)"
proof -
  have h1: "drv_ok [] ''BEGIN TRANSACTION'' = None"
    by (simp add: drv_ok_def)
  have h2: "set (statements body_nested_then_throw)
              \<inter> {''BEGIN TRANSACTION'', ''COMMIT'', ''ROLLBACK''} = {}"
    by (simp add: body_nested_then_throw_def)
  have h3: "set (statements body_catch_nested_throw)
              \<inter> {''BEGIN TRANSACTION'', ''COMMIT'', ''ROLLBACK''} = {}"
    by (simp add: body_catch_nested_throw_def)
  have o1: "isl (fst (run_body drv_ok body_nested_then_throw
                        (SnowflakeSdkTransaction_new (ses_connection example_session)
                           (ses_dialect example_session) example_session
                           (ses_schema example_session) (ses_options example_session) 0)
                        ([] @ [''BEGIN TRANSACTION''])))"
    by (simp add: body_nested_then_throw_def SnowflakeSdkTransaction_transaction_def
        connection_execute_def drv_ok_def)
  have o2: "\<not> isl (fst (run_body drv_ok body_catch_nested_throw
                        (SnowflakeSdkTransaction_new (ses_connection example_session)
                           (ses_dialect example_session) example_session
                           (ses_schema example_session) (ses_options example_session) 0)
                        ([] @ [''BEGIN TRANSACTION''])))"
    by (simp add: body_catch_nested_throw_def SnowflakeSdkTransaction_transaction_def
        connection_execute_def drv_ok_def)
  note t1 = nested_transaction_issues_nothing
    [where drv = drv_ok and log = "[]" and s = example_session and b = body_nested_then_throw,
     THEN conjunct2, THEN conjunct2, THEN conjunct2]
  note t2 = nested_transaction_issues_nothing
    [where drv = drv_ok and log = "[]" and s = example_session and b = body_catch_nested_throw,
     THEN conjunct2, THEN conjunct2, THEN conjunct2]
  have c1: "let after = issued [] (snd (SnowflakeSdkSession_transaction drv_ok example_session
                                    (run_body drv_ok body_nested_then_throw) []))
      in count_list after ''BEGIN TRANSACTION'' = 1
       \<and> count_list after ''COMMIT'' = 0
       \<and> count_list after ''ROLLBACK'' = 1"
    using t1 h1 h2 o1 by (simp add: Let_def)
  have c2: "let after = issued [] (snd (SnowflakeSdkSession_transaction drv_ok example_session
                                    (run_body drv_ok body_catch_nested_throw) []))
      in count_list after ''BEGIN TRANSACTION'' = 1
       \<and> count_list after ''COMMIT'' = 1"
    using t2 h1 h3 o2 by (simp add: Let_def)
  have r1: "SnowflakeSdkSession_transaction drv_ok example_session
      (run_body drv_ok body_nested_then_throw) []
     = (Inl (Error ''Test error''),
        [''BEGIN TRANSACTION'', ''INSERT INTO users (name) VALUES (?)'', ''ROLLBACK''])"
    by (simp add: SnowflakeSdkSession_transaction_def body_nested_then_throw_def
        SnowflakeSdkTransaction_transaction_def rollback_and_rethrow_def
        connection_execute_def drv_ok_def)
  have r2: "SnowflakeSdkSession_transaction drv_ok example_session
        (run_body drv_ok body_catch_nested_throw) []
     = (Inr (),
        [''BEGIN TRANSACTION'', ''INSERT INTO users (name) VALUES (?)'', ''COMMIT''])"
    by (simp add: SnowflakeSdkSession_transaction_def body_catch_nested_throw_def
        SnowflakeSdkTransaction_transaction_def rollback_and_rethrow_def
        connection_execute_def drv_ok_def)
  show ?thesis
    by (rule conjI [OF r1 conjI [OF c1 conjI [OF r2 c2]]])
qed

text \<open>
  C2. When \<open>BEGIN TRANSACTION\<close> has succeeded and the callback raises \<open>error\<close> after
  issuing \<open>stmts\<close>, the session issues one \<open>ROLLBACK\<close> and no \<open>COMMIT\<close>, and the call
  raises: the original error when the \<open>ROLLBACK\<close> succeeds, the error of the
  \<open>ROLLBACK\<close> when it fails.
\<close>

theorem failed_callback_rolls_back:
  assumes begin_ok: "drv log ''BEGIN TRANSACTION'' = None"
    and raised: "transaction (SnowflakeSdkTransaction_new (ses_connection s) (ses_dialect s) s
                    (ses_schema s) (ses_options s) 0) (log @ [''BEGIN TRANSACTION''])
                 = (Inl error, log @ [''BEGIN TRANSACTION''] @ stmts)"
  shows "snd (SnowflakeSdkSession_transaction drv s transaction log)
           = log @ [''BEGIN TRANSACTION''] @ stmts @ [''ROLLBACK'']
         \<and> (drv (log @ [''BEGIN TRANSACTION''] @ stmts) ''ROLLBACK'' = None \<longrightarrow>
              fst (SnowflakeSdkSession_transaction drv s transaction log) = Inl error)
         \<and> (\<forall>err. drv (log @ [''BEGIN TRANSACTION''] @ stmts) ''ROLLBACK'' = Some err \<longrightarrow>
              fst (SnowflakeSdkSession_transaction drv s transaction log) = Inl err)
         \<and> (set stmts \<inter> {''BEGIN TRANSACTION'', ''COMMIT'', ''ROLLBACK''} = {} \<longrightarrow>
              (let after = snd (SnowflakeSdkSession_transaction drv s transaction log)
               in count_list (issued log after) ''BEGIN TRANSACTION'' = 1
                \<and> count_list (issued log after) ''ROLLBACK'' = 1
                \<and> count_list (issued log after) ''COMMIT'' = 0))"
proof -
  have run: "SnowflakeSdkSession_transaction drv s transaction log
               = (Inl (case drv (log @ [''BEGIN TRANSACTION''] @ stmts) ''ROLLBACK'' of
                         None \<Rightarrow> error | Some err \<Rightarrow> err),
                  log @ [''BEGIN TRANSACTION''] @ stmts @ [''ROLLBACK''])"
    unfolding SnowflakeSdkSession_transaction_def Let_def
    using connection_execute_ok [of drv log "''BEGIN TRANSACTION''"] begin_ok raised
    by (simp add: rollback_and_rethrow_eq)
  show ?thesis
    by (simp add: run issued_def)
qed

theorem failed_callback_rolls_back_witness:
  "SnowflakeSdkSession_transaction drv_ok example_session cb_throw []
     = (Inl (Error ''Test error''), [''BEGIN TRANSACTION'', ''ROLLBACK''])
   \<and> SnowflakeSdkSession_transaction drv_rollback_fails example_session cb_throw []
     = (Inl (Error ''rollback failed''), [''BEGIN TRANSACTION'', ''ROLLBACK''])"
proof -
  have a: "SnowflakeSdkSession_transaction drv_ok example_session cb_throw []
             = (Inl (Error ''Test error''), [''BEGIN TRANSACTION'', ''ROLLBACK''])"
    using failed_callback_rolls_back
      [where drv = drv_ok and log = "[]" and transaction = cb_throw and s = example_session
         and error = "Error ''Test error''" and stmts = "[]"]
    by (simp add: drv_ok_def cb_throw_def prod_eq_iff)
  have b: "SnowflakeSdkSession_transaction drv_rollback_fails example_session cb_throw []
             = (Inl (Error ''rollback failed''), [''BEGIN TRANSACTION'', ''ROLLBACK''])"
    using failed_callback_rolls_back
      [where drv = drv_rollback_fails and log = "[]" and transaction = cb_throw
         and s = example_session and error = "Error ''Test error''" and stmts = "[]"]
    by (simp add: drv_rollback_fails_def cb_throw_def prod_eq_iff)
  from a b show ?thesis by simp
qed

text \<open>
  C3, as stated, fails when the \<open>COMMIT\<close> itself is refused: the callback has resolved
  normally (with \<open>0\<close>), yet the \<open>COMMIT\<close> sits inside the \<open>try\<close>, so a \<open>ROLLBACK\<close>
  follows it and the caller gets the error of the \<open>COMMIT\<close>, not the callback's result.
\<close>

theorem commit_failure_counterexample:
  "cb_insert drv_commit_fails
      (SnowflakeSdkTransaction_new (ses_connection example_session) (ses_dialect example_session)
         example_session (ses_schema example_session) (ses_options example_session) 0)
      [''BEGIN TRANSACTION'']
     = (Inr 0, [''BEGIN TRANSACTION'', ''INSERT INTO users (name) VALUES (?)''])
   \<and> SnowflakeSdkSession_transaction drv_commit_fails example_session
        (cb_insert drv_commit_fails) []
     = (Inl (Error ''commit failed''),
        [''BEGIN TRANSACTION'', ''INSERT INTO users (name) VALUES (?)'', ''COMMIT'',
         ''ROLLBACK''])"
  by (simp add: SnowflakeSdkSession_transaction_def rollback_and_rethrow_def
      connection_execute_def drv_commit_fails_def cb_insert_def
      SnowflakeSdkTransaction_new_def)

text \<open>
  C3, amended. When \<open>BEGIN TRANSACTION\<close> has succeeded and the callback resolves with
  \<open>result\<close> after issuing \<open>stmts\<close>: if the \<open>COMMIT\<close> succeeds, the session has issued
  \<open>BEGIN TRANSACTION\<close> before the callback's statements and \<open>COMMIT\<close> after them, one
  of each and no \<open>ROLLBACK\<close>, and the caller gets \<open>result\<close>; if the \<open>COMMIT\<close> fails,
  one \<open>ROLLBACK\<close> follows it and the call raises.
\<close>

theorem successful_transaction_commits:
  assumes begin_ok: "drv log ''BEGIN TRANSACTION'' = None"
    and resolved: "transaction (SnowflakeSdkTransaction_new (ses_connection s) (ses_dialect s) s
                      (ses_schema s) (ses_options s) 0) (log @ [''BEGIN TRANSACTION''])
                   = (Inr result, log @ [''BEGIN TRANSACTION''] @ stmts)"
  shows "(drv (log @ [''BEGIN TRANSACTION''] @ stmts) ''COMMIT'' = None \<longrightarrow>
            SnowflakeSdkSession_transaction drv s transaction log
              = (Inr result, log @ [''BEGIN TRANSACTION''] @ stmts @ [''COMMIT''])
            \<and> (set stmts \<inter> {''BEGIN TRANSACTION'', ''COMMIT'', ''ROLLBACK''} = {} \<longrightarrow>
                (let after = snd (SnowflakeSdkSession_transaction drv s transaction log)
                 in count_list (issued log after) ''BEGIN TRANSACTION'' = 1
                  \<and> count_list (issued log after) ''COMMIT'' = 1
                  \<and> count_list (issued log after) ''ROLLBACK'' = 0)))
         \<and> (\<forall>err. drv (log @ [''BEGIN TRANSACTION''] @ stmts) ''COMMIT'' = Some err \<longrightarrow>
              snd (SnowflakeSdkSession_transaction drv s transaction log)
                = log @ [''BEGIN TRANSACTION''] @ stmts @ [''COMMIT'', ''ROLLBACK'']
              \<and> (\<exists>e. fst (SnowflakeSdkSession_transaction drv s transaction log) = Inl e))"
proof -
  have ok: "SnowflakeSdkSession_transaction drv s transaction log
              = (Inr result, log @ [''BEGIN TRANSACTION''] @ stmts @ [''COMMIT''])"
    if "drv (log @ [''BEGIN TRANSACTION''] @ stmts) ''COMMIT'' = None"
    unfolding SnowflakeSdkSession_transaction_def Let_def
    using connection_execute_ok [of drv log "''BEGIN TRANSACTION''"] begin_ok resolved
      connection_execute_ok [of drv "log @ [''BEGIN TRANSACTION''] @ stmts" "''COMMIT''"] that
    by simp
  have bad: "SnowflakeSdkSession_transaction drv s transaction log
               = (Inl (case drv (log @ [''BEGIN TRANSACTION''] @ stmts @ [''COMMIT''])
                              ''ROLLBACK'' of None \<Rightarrow> err | Some e \<Rightarrow> e),
                  log @ [''BEGIN TRANSACTION''] @ stmts @ [''COMMIT'', ''ROLLBACK''])"
    if "drv (log @ [''BEGIN TRANSACTION''] @ stmts) ''COMMIT'' = Some err" for err
    unfolding SnowflakeSdkSession_transaction_def Let_def
    using connection_execute_ok [of drv log "''BEGIN TRANSACTION''"] begin_ok resolved
      connection_execute_err [of drv "log @ [''BEGIN TRANSACTION''] @ stmts" "''COMMIT''" err]
      that
    by (simp add: rollback_and_rethrow_eq)
  show ?thesis
    using ok bad by (simp add: issued_def)
qed

theorem successful_transaction_commits_witness:
  "SnowflakeSdkSession_transaction drv_ok example_session (cb_insert drv_ok) []
     = (Inr 0, [''BEGIN TRANSACTION'', ''INSERT INTO users (name) VALUES (?)'', ''COMMIT''])
   \<and> (let after = snd (SnowflakeSdkSession_transaction drv_ok example_session
                        (cb_insert drv_ok) [])
      in count_list (issued [] after) ''BEGIN TRANSACTION'' = 1
       \<and> count_list (issued [] after) ''COMMIT'' = 1
       \<and> count_list (issued [] after) ''ROLLBACK'' = 0)"
  using successful_transaction_commits
    [where drv = drv_ok and log = "[]" and transaction = "cb_insert drv_ok"
       and s = example_session and result = 0
       and stmts = "[''INSERT INTO users (name) VALUES (?)'']"]
  by (simp add: drv_ok_def cb_insert_def connection_execute_def
      SnowflakeSdkTransaction_new_def issued_def)


section \<open>SELECT: the join-reference check\<close>











section \<open>SELECT: qualification of projected columns\<close>

lemma flatMap_indexed_sep_aux:
  "concat (map (\<lambda>(i, x). g x @ (if int i < int (k + length xs) - 1 then [s] else []))
             (enumerate k xs))
     = sep_chunks g s xs"
proof (induction g s xs arbitrary: k rule: sep_chunks.induct)
  case (1 g s)
  show ?case by simp
next
  case (2 g s x)
  show ?case by simp
next
  case (3 g s x y ys)
  have "concat (map (\<lambda>(i, x). g x @ (if int i < int (Suc k + length (y # ys)) - 1 then [s] else []))
                  (enumerate (Suc k) (y # ys)))
          = sep_chunks g s (y # ys)"
    by (rule 3)
  then show ?case by simp
qed

lemma flatMap_indexed_sep:
  "flatMap_indexed (\<lambda>x i. g x @ (if int i < int (length xs) - 1 then [s] else [])) xs
     = sep_chunks g s xs"
  using flatMap_indexed_sep_aux [of g 0 xs s] by (simp add: flatMap_indexed_def)

lemma render_sep_chunks:
  "concat (map (render casing) (sep_chunks g s xs))
     = join (render casing s) (map (\<lambda>x. concat (map (render casing) (g x))) xs)"
  by (induction g s xs rule: sep_chunks.induct) simp_all

lemma render_buildSelection:
  "render casing (buildSelection casing fs single)
     = join '', '' (map (\<lambda>f. concat (map (render casing)
                                        (selection_chunk casing single (sf_field f)))) fs)"
  by (simp add: buildSelection_def Let_def flatMap_indexed_sep render_sep_chunks)

lemma buildSelectQuery_final_query:
  assumes "buildSelectQuery casing config = Inr q"
  shows "\<exists>a b tail.
           (if sel_setOperators config = []
            then q = SQL (a # StringChunk ''SELECT'' # b # StringChunk '' ''
                          # buildSelection casing (fields_list config)
                              (isSingleTable (sel_joins config))
                          # StringChunk '' FROM '' # tail)
            else buildSetOperations
                   (SQL (a # StringChunk ''SELECT'' # b # StringChunk '' ''
                         # buildSelection casing (fields_list config)
                             (isSingleTable (sel_joins config))
                         # StringChunk '' FROM '' # tail))
                   (sel_setOperators config) = Inr q)"
proof (cases "check_fields (sel_table config) (sel_joins config) (fields_list config)")
  case (Some err)
  with assms show ?thesis
    by (simp add: buildSelectQuery_def Let_def)
next
  case None
  let ?a = "buildWithCTE (sel_withList config)"
  let ?b = "if sel_distinct config = Some True then SQL [StringChunk '' DISTINCT'']
            else UndefinedChunk"
  let ?tail = "[buildFromTable (sel_table config), buildJoins (sel_joins config),
                (case sel_where config of
                   None \<Rightarrow> UndefinedChunk
                 | Some w \<Rightarrow> SQL [StringChunk '' WHERE '', SQL w]),
                (case sel_groupBy config of
                   None \<Rightarrow> UndefinedChunk
                 | Some [] \<Rightarrow> UndefinedChunk
                 | Some groupBy \<Rightarrow>
                     SQL [StringChunk '' GROUP BY '',
                          SQL (sql_join (SQL [StringChunk '', '']) groupBy)]),
                (case sel_having config of
                   None \<Rightarrow> UndefinedChunk
                 | Some h \<Rightarrow> SQL [StringChunk '' HAVING '', SQL h]),
                (case sel_orderBy config of
                   None \<Rightarrow> UndefinedChunk
                 | Some [] \<Rightarrow> UndefinedChunk
                 | Some orderBy \<Rightarrow>
                     SQL [StringChunk '' ORDER BY '',
                          SQL (sql_join (SQL [StringChunk '', '']) orderBy)]),
                limit_clause (sel_limit config), offset_clause (sel_offset config)]"
  let ?fq = "SQL (?a # StringChunk ''SELECT'' # ?b # StringChunk '' ''
                  # buildSelection casing (fields_list config)
                      (isSingleTable (sel_joins config))
                  # StringChunk '' FROM '' # ?tail)"
  have eq: "buildSelectQuery casing config
              = (if sel_setOperators config \<noteq> []
                 then buildSetOperations ?fq (sel_setOperators config) else Inr ?fq)"
    using None by (simp add: buildSelectQuery_def Let_def)
  have "if sel_setOperators config = [] then q = ?fq
        else buildSetOperations ?fq (sel_setOperators config) = Inr q"
  proof (cases "sel_setOperators config = []")
    case True
    with eq assms show ?thesis by simp
  next
    case False
    with eq assms show ?thesis by simp
  qed
  then show ?thesis by (intro exI)
qed

text \<open>
  C5. The text of the selection list is the comma-separated list of the texts of the
  projected fields. Built for a single-table query, a projected bare column is the
  identifier chunk of its name, whose text is the quoted name alone; built otherwise, it
  is the column itself, whose text is qualified with the name of its table. So a list of
  bare columns reads \<open>"c1", "c2", ...\<close> in the first case and
  \<open>"t1"."c1", "t2"."c2", ...\<close> in the second. And \<open>buildSelectQuery\<close> builds the
  selection list, between \<open>SELECT\<close> and \<open>FROM\<close>, for a single-table query exactly when
  the join list is absent or empty, and otherwise when it has at least one join (the
  query is then the left operand of the set operators, if there are any).
\<close>

theorem selection_column_qualification:
  "render casing (buildSelection casing fs single)
     = join '', '' (map (\<lambda>f. concat (map (render casing)
                                        (selection_chunk casing single (sf_field f)))) fs)
   \<and> selection_chunk casing True (FieldColumn c) = [Name (casing c)]
   \<and> render casing (Name (casing c)) = [CHR 0x22] @ casing c @ [CHR 0x22]
   \<and> selection_chunk casing False (FieldColumn c) = [ColumnChunk c]
   \<and> render casing (ColumnChunk c)
       = [CHR 0x22] @ tbl_Name (col_table c) @ [CHR 0x22] @ ''.''
         @ [CHR 0x22] @ casing c @ [CHR 0x22]
   \<and> render casing (buildSelection casing
         (map (\<lambda>(p, c). \<lparr>sf_path = p, sf_field = FieldColumn c\<rparr>) cols) True)
       = join '', '' (map (\<lambda>(p, c). [CHR 0x22] @ casing c @ [CHR 0x22]) cols)
   \<and> render casing (buildSelection casing
         (map (\<lambda>(p, c). \<lparr>sf_path = p, sf_field = FieldColumn c\<rparr>) cols) False)
       = join '', '' (map (\<lambda>(p, c). [CHR 0x22] @ tbl_Name (col_table c) @ [CHR 0x22] @ ''.''
                                     @ [CHR 0x22] @ casing c @ [CHR 0x22]) cols)
   \<and> (buildSelectQuery casing config = Inr q
      \<and> (sel_joins config = None \<or> sel_joins config = Some [])
      \<longrightarrow> (\<exists>a b tail.
            if sel_setOperators config = []
            then q = SQL (a # StringChunk ''SELECT'' # b # StringChunk '' ''
                          # buildSelection casing (fields_list config) True
                          # StringChunk '' FROM '' # tail)
            else buildSetOperations
                   (SQL (a # StringChunk ''SELECT'' # b # StringChunk '' ''
                         # buildSelection casing (fields_list config) True
                         # StringChunk '' FROM '' # tail))
                   (sel_setOperators config) = Inr q))
   \<and> (buildSelectQuery casing config = Inr q \<and> sel_joins config = Some (j # js)
      \<longrightarrow> (\<exists>a b tail.
            if sel_setOperators config = []
            then q = SQL (a # StringChunk ''SELECT'' # b # StringChunk '' ''
                          # buildSelection casing (fields_list config) False
                          # StringChunk '' FROM '' # tail)
            else buildSetOperations
                   (SQL (a # StringChunk ''SELECT'' # b # StringChunk '' ''
                         # buildSelection casing (fields_list config) False
                         # StringChunk '' FROM '' # tail))
                   (sel_setOperators config) = Inr q))"
proof -
  have p1: "render casing (buildSelection casing fs single)
     = join '', '' (map (\<lambda>f. concat (map (render casing)
                                        (selection_chunk casing single (sf_field f)))) fs)"
    by (rule render_buildSelection)
  have p2: "selection_chunk casing True (FieldColumn c) = [Name (casing c)]"
    by simp
  have p3: "render casing (Name (casing c)) = [CHR 0x22] @ casing c @ [CHR 0x22]"
    by (simp add: escapeName_def)
  have p4: "selection_chunk casing False (FieldColumn c) = [ColumnChunk c]"
    by simp
  have p5: "render casing (ColumnChunk c)
       = [CHR 0x22] @ tbl_Name (col_table c) @ [CHR 0x22] @ ''.''
         @ [CHR 0x22] @ casing c @ [CHR 0x22]"
    by (simp add: escapeName_def)
  have p6: "render casing (buildSelection casing
         (map (\<lambda>(p, c). \<lparr>sf_path = p, sf_field = FieldColumn c\<rparr>) cols) True)
       = join '', '' (map (\<lambda>(p, c). [CHR 0x22] @ casing c @ [CHR 0x22]) cols)"
    by (simp add: render_buildSelection escapeName_def o_def split_def)
  have p7: "render casing (buildSelection casing
         (map (\<lambda>(p, c). \<lparr>sf_path = p, sf_field = FieldColumn c\<rparr>) cols) False)
       = join '', '' (map (\<lambda>(p, c). [CHR 0x22] @ tbl_Name (col_table c) @ [CHR 0x22] @ ''.''
                                     @ [CHR 0x22] @ casing c @ [CHR 0x22]) cols)"
    by (simp add: render_buildSelection escapeName_def o_def split_def)
  have p8: "buildSelectQuery casing config = Inr q
      \<and> (sel_joins config = None \<or> sel_joins config = Some [])
      \<longrightarrow> (\<exists>a b tail.
            if sel_setOperators config = []
            then q = SQL (a # StringChunk ''SELECT'' # b # StringChunk '' ''
                          # buildSelection casing (fields_list config) True
                          # StringChunk '' FROM '' # tail)
            else buildSetOperations
                   (SQL (a # StringChunk ''SELECT'' # b # StringChunk '' ''
                         # buildSelection casing (fields_list config) True
                         # StringChunk '' FROM '' # tail))
                   (sel_setOperators config) = Inr q)"
  proof (intro impI, elim conjE)
    assume q: "buildSelectQuery casing config = Inr q"
      and joins: "sel_joins config = None \<or> sel_joins config = Some []"
    from joins have single: "isSingleTable (sel_joins config) = True"
      by (auto simp: isSingleTable_def)
    from buildSelectQuery_final_query [OF q]
    show "\<exists>a b tail.
            if sel_setOperators config = []
            then q = SQL (a # StringChunk ''SELECT'' # b # StringChunk '' ''
                          # buildSelection casing (fields_list config) True
                          # StringChunk '' FROM '' # tail)
            else buildSetOperations
                   (SQL (a # StringChunk ''SELECT'' # b # StringChunk '' ''
                         # buildSelection casing (fields_list config) True
                         # StringChunk '' FROM '' # tail))
                   (sel_setOperators config) = Inr q"
      by (simp only: single)
  qed
  have p9: "buildSelectQuery casing config = Inr q \<and> sel_joins config = Some (j # js)
      \<longrightarrow> (\<exists>a b tail.
            if sel_setOperators config = []
            then q = SQL (a # StringChunk ''SELECT'' # b # StringChunk '' ''
                          # buildSelection casing (fields_list config) False
                          # StringChunk '' FROM '' # tail)
            else buildSetOperations
                   (SQL (a # StringChunk ''SELECT'' # b # StringChunk '' ''
                         # buildSelection casing (fields_list config) False
                         # StringChunk '' FROM '' # tail))
                   (sel_setOperators config) = Inr q)"
  proof (intro impI, elim conjE)
    assume q: "buildSelectQuery casing config = Inr q"
      and joins: "sel_joins config = Some (j # js)"
    from joins have single: "isSingleTable (sel_joins config) = False"
      by (simp add: isSingleTable_def)
    from buildSelectQuery_final_query [OF q]
    show "\<exists>a b tail.
            if sel_setOperators config = []
            then q = SQL (a # StringChunk ''SELECT'' # b # StringChunk '' ''
                          # buildSelection casing (fields_list config) False
                          # StringChunk '' FROM '' # tail)
            else buildSetOperations
                   (SQL (a # StringChunk ''SELECT'' # b # StringChunk '' ''
                         # buildSelection casing (fields_list config) False
                         # StringChunk '' FROM '' # tail))
                   (sel_setOperators config) = Inr q"
      by (simp only: single)
  qed
  show ?thesis
    by (rule conjI [OF p1 conjI [OF p2 conjI [OF p3 conjI [OF p4 conjI [OF p5
          conjI [OF p6 conjI [OF p7 conjI [OF p8 p9]]]]]]]])
qed

lemma select_query_empty_joins:
  "buildSelectQuery name_of_column
      (select_config (FromTable users_table) (Some [])
         [column_field ''id'' users_id, column_field ''name'' users_name])
     = Inr (SQL [UndefinedChunk, StringChunk ''SELECT'', UndefinedChunk, StringChunk '' '',
                 buildSelection name_of_column
                   [column_field ''id'' users_id, column_field ''name'' users_name] True,
                 StringChunk '' FROM '', TableChunk users_table, UndefinedChunk,
                 UndefinedChunk, UndefinedChunk, UndefinedChunk, UndefinedChunk,
                 UndefinedChunk, UndefinedChunk])"
  by (simp add: buildSelectQuery_def Let_def select_config_def fields_list_def column_field_def
      root_table_name_def users_table_def users_id_def users_name_def plain_column_eq
      isSingleTable_def buildWithCTE_def buildFromTable_def buildJoins_def limit_clause_def
      offset_clause_def)

lemma select_query_one_join:
  "\<exists>joinsSql. buildSelectQuery name_of_column
      (select_config (FromTable users_table) (Some [orders_join])
         [column_field ''id'' users_id, column_field ''total'' orders_total])
     = Inr (SQL [UndefinedChunk, StringChunk ''SELECT'', UndefinedChunk, StringChunk '' '',
                 buildSelection name_of_column
                   [column_field ''id'' users_id, column_field ''total'' orders_total] False,
                 StringChunk '' FROM '', TableChunk users_table, joinsSql,
                 UndefinedChunk, UndefinedChunk, UndefinedChunk, UndefinedChunk,
                 UndefinedChunk, UndefinedChunk])"
  by (simp add: buildSelectQuery_def Let_def select_config_def fields_list_def column_field_def
      root_table_name_def joins_some_alias_def users_table_def orders_table_def users_id_def
      orders_total_def orders_join_def plain_column_eq isSingleTable_def buildWithCTE_def
      buildFromTable_def limit_clause_def offset_clause_def)

theorem selection_column_qualification_witness:
  "(\<exists>a b tail.
      projr (buildSelectQuery name_of_column
               (select_config (FromTable users_table) (Some [])
                  [column_field ''id'' users_id, column_field ''name'' users_name]))
        = SQL (a # StringChunk ''SELECT'' # b # StringChunk '' ''
               # buildSelection name_of_column
                   [column_field ''id'' users_id, column_field ''name'' users_name] True
               # StringChunk '' FROM '' # tail))
   \<and> render name_of_column
        (buildSelection name_of_column
           [column_field ''id'' users_id, column_field ''name'' users_name] True)
       = [CHR 0x22] @ ''id'' @ [CHR 0x22] @ '', '' @ [CHR 0x22] @ ''name'' @ [CHR 0x22]
   \<and> (\<exists>a b tail.
      projr (buildSelectQuery name_of_column
               (select_config (FromTable users_table) (Some [orders_join])
                  [column_field ''id'' users_id, column_field ''total'' orders_total]))
        = SQL (a # StringChunk ''SELECT'' # b # StringChunk '' ''
               # buildSelection name_of_column
                   [column_field ''id'' users_id, column_field ''total'' orders_total] False
               # StringChunk '' FROM '' # tail))
   \<and> render name_of_column
        (buildSelection name_of_column
           [column_field ''id'' users_id, column_field ''total'' orders_total] False)
       = [CHR 0x22] @ ''users'' @ [CHR 0x22] @ ''.'' @ [CHR 0x22] @ ''id'' @ [CHR 0x22] @ '', ''
         @ [CHR 0x22] @ ''orders'' @ [CHR 0x22] @ ''.'' @ [CHR 0x22] @ ''total'' @ [CHR 0x22]"
proof -
  let ?c1 = "select_config (FromTable users_table) (Some [])
               [column_field ''id'' users_id, column_field ''name'' users_name]"
  let ?c2 = "select_config (FromTable users_table) (Some [orders_join])
               [column_field ''id'' users_id, column_field ''total'' orders_total]"
  have q1: "buildSelectQuery name_of_column ?c1
              = Inr (projr (buildSelectQuery name_of_column ?c1))"
    using select_query_empty_joins by simp
  have q2: "buildSelectQuery name_of_column ?c2
              = Inr (projr (buildSelectQuery name_of_column ?c2))"
    using select_query_one_join by auto
  have j1: "sel_joins ?c1 = None \<or> sel_joins ?c1 = Some []"
    by (simp add: select_config_def)
  have j2: "sel_joins ?c2 = Some (orders_join # [])"
    by (simp add: select_config_def)
  have so: "sel_setOperators ?c1 = []" "sel_setOperators ?c2 = []"
    by (simp_all add: select_config_def)
  have fl: "fields_list ?c1 = [column_field ''id'' users_id, column_field ''name'' users_name]"
    "fields_list ?c2 = [column_field ''id'' users_id, column_field ''total'' orders_total]"
    by (simp_all add: select_config_def fields_list_def)
  note th1 = selection_column_qualification
    [where casing = name_of_column and config = ?c1
       and q = "projr (buildSelectQuery name_of_column ?c1)"
       and cols = "[([''id''], users_id), ([''name''], users_name)]"]
  note th2 = selection_column_qualification
    [where casing = name_of_column and config = ?c2
       and q = "projr (buildSelectQuery name_of_column ?c2)"
       and j = orders_join and js = "[]"
       and cols = "[([''id''], users_id), ([''total''], orders_total)]"]
  have a1: "\<exists>a b tail.
      projr (buildSelectQuery name_of_column ?c1)
        = SQL (a # StringChunk ''SELECT'' # b # StringChunk '' ''
               # buildSelection name_of_column
                   [column_field ''id'' users_id, column_field ''name'' users_name] True
               # StringChunk '' FROM '' # tail)"
    using th1 [THEN conjunct2, THEN conjunct2, THEN conjunct2, THEN conjunct2, THEN conjunct2,
               THEN conjunct2, THEN conjunct2, THEN conjunct1] q1 j1
    by (simp only: so fl if_True simp_thms)
  have a2: "render name_of_column
        (buildSelection name_of_column
           [column_field ''id'' users_id, column_field ''name'' users_name] True)
       = [CHR 0x22] @ ''id'' @ [CHR 0x22] @ '', '' @ [CHR 0x22] @ ''name'' @ [CHR 0x22]"
    using th1 [THEN conjunct2, THEN conjunct2, THEN conjunct2, THEN conjunct2, THEN conjunct2,
               THEN conjunct1]
    by (simp add: column_field_def name_of_column_def users_id_def users_name_def
        plain_column_eq)
  have a3: "\<exists>a b tail.
      projr (buildSelectQuery name_of_column ?c2)
        = SQL (a # StringChunk ''SELECT'' # b # StringChunk '' ''
               # buildSelection name_of_column
                   [column_field ''id'' users_id, column_field ''total'' orders_total] False
               # StringChunk '' FROM '' # tail)"
    using th2 [THEN conjunct2, THEN conjunct2, THEN conjunct2, THEN conjunct2, THEN conjunct2,
               THEN conjunct2, THEN conjunct2, THEN conjunct2] q2 j2
    by (simp only: so fl if_True simp_thms)
  have a4: "render name_of_column
        (buildSelection name_of_column
           [column_field ''id'' users_id, column_field ''total'' orders_total] False)
       = [CHR 0x22] @ ''users'' @ [CHR 0x22] @ ''.'' @ [CHR 0x22] @ ''id'' @ [CHR 0x22] @ '', ''
         @ [CHR 0x22] @ ''orders'' @ [CHR 0x22] @ ''.'' @ [CHR 0x22] @ ''total'' @ [CHR 0x22]"
    using th2 [THEN conjunct2, THEN conjunct2, THEN conjunct2, THEN conjunct2, THEN conjunct2,
               THEN conjunct2, THEN conjunct1]
    by (simp add: column_field_def name_of_column_def users_id_def orders_total_def
        plain_column_eq users_table_def orders_table_def)
  show ?thesis
    by (rule conjI [OF a1 conjI [OF a2 conjI [OF a3 a4]]])
qed

text \<open>
  The same two columns through \<open>buildSelectQuery\<close> and the serializer: the text of the
  whole query with an empty join list.
\<close>

lemma select_query_text_single:
  "map_sum id (render name_of_column)
      (buildSelectQuery name_of_column
         (select_config (FromTable users_table) (Some [])
            [column_field ''id'' users_id, column_field ''name'' users_name]))
     = Inr (''SELECT '' @ [CHR 0x22] @ ''id'' @ [CHR 0x22] @ '', '' @ [CHR 0x22] @ ''name''
            @ [CHR 0x22] @ '' FROM '' @ [CHR 0x22] @ ''users'' @ [CHR 0x22])"
  by (simp add: buildSelectQuery_def Let_def select_config_def fields_list_def column_field_def
      root_table_name_def users_table_def users_id_def users_name_def plain_column_eq
      isSingleTable_def buildWithCTE_def buildSelection_def
      flatMap_indexed_def buildFromTable_def buildJoins_def limit_clause_def offset_clause_def
      name_of_column_def escapeName_def)

section \<open>INSERT: the value emitted for a column without a supplied value\<close>

text \<open>
  C6 at the column \<open>integer('version').default(0).$onUpdate(() => 1)\<close>, inserted without
  a value: a static default is configured, yet the value emitted is the result of the
  update generator (the bound parameter \<open>1\<close>), not the \<open>DEFAULT\<close> keyword. The check
  \<open>!col.default\<close> takes the falsy default \<open>0\<close> for an absent one. With the static
  default \<open>5\<close> the same column gets \<open>DEFAULT\<close>.
\<close>

theorem insert_falsy_default_uses_update_generator:
  "insert_column_value users_version None = Param (JNum 1) (Some users_version)
   \<and> insert_column_value users_version None \<noteq> SQL [StringChunk ''DEFAULT'']
   \<and> insert_column_value users_version5 None = SQL [StringChunk ''DEFAULT'']
   \<and> map_sum id (render name_of_column)
        (buildInsertQuery name_of_column
           \<lparr>ins_table = users_table, ins_columns = [(''version'', users_version)],
            ins_values = ValueRows [Map.empty], ins_onConflict = None, ins_returning = None,
            ins_withList = None, ins_select = None\<rparr>)
       = Inr (''INSERT INTO '' @ [CHR 0x22] @ ''users'' @ [CHR 0x22] @ '' (''
              @ [CHR 0x22] @ ''version'' @ [CHR 0x22] @ '') VALUES (?)'')
   \<and> map_sum id (render name_of_column)
        (buildInsertQuery name_of_column
           \<lparr>ins_table = users_table, ins_columns = [(''version'', users_version5)],
            ins_values = ValueRows [Map.empty], ins_onConflict = None, ins_returning = None,
            ins_withList = None, ins_select = None\<rparr>)
       = Inr (''INSERT INTO '' @ [CHR 0x22] @ ''users'' @ [CHR 0x22] @ '' (''
              @ [CHR 0x22] @ ''version'' @ [CHR 0x22] @ '') VALUES (DEFAULT)'')"
  by (simp add: insert_column_value_def value_is_unset_def default_is_falsy_def
      generated_value_def users_version_def users_version5_def SnowflakeColumn_new_def
      buildInsertQuery_def Let_def buildWithCTE_def flatMap_indexed_def users_table_def
      name_of_column_def escapeName_def escapeParam_def)

text \<open>
  What the inner loop of \<open>buildInsertQuery\<close> does in general: a supplied value is
  emitted as it is; otherwise the default generator's result; otherwise, when the static
  default is absent or falsy and an update generator exists, that generator's result;
  otherwise \<open>DEFAULT\<close>.
\<close>

lemma insert_column_value_cases:
  "insert_column_value col (Some (RowSQL q)) = SQL q"
  "v \<noteq> JUndefined \<Longrightarrow> insert_column_value col (Some (RowParam v enc)) = Param v enc"
  "col_defaultFn col = Some r \<Longrightarrow> insert_column_value col None = generated_value r col"
  "col_defaultFn col = None \<Longrightarrow> col_onUpdateFn col = Some r
     \<Longrightarrow> default_is_falsy (col_default col)
     \<Longrightarrow> insert_column_value col None = generated_value r col"
  "col_defaultFn col = None \<Longrightarrow> \<not> default_is_falsy (col_default col)
     \<Longrightarrow> insert_column_value col None = SQL [StringChunk ''DEFAULT'']"
  "col_defaultFn col = None \<Longrightarrow> col_onUpdateFn col = None
     \<Longrightarrow> insert_column_value col None = SQL [StringChunk ''DEFAULT'']"
  by (simp_all add: insert_column_value_def value_is_unset_def)


end
